theory Spec2Isabelle
  imports Main "HOL-Library.Char_ord" "HOL-Library.List_Lexorder"
begin

section \<open>The handlers of handler.go\<close>

text \<open>
  The package has one file, handler.go: six HTTP handlers and one middleware over a
  relational store (tables country, city, users), bcrypt and a cookie session. The store,
  bcrypt, the session library, the request binder and the JSON encoder are libraries the
  file calls; each is modelled by what the call returns to the handler:
  \<^item> the store is a record of its three tables, an auto-increment counter and a fault
    function that says which statement fails with an infrastructure error;
  \<^item> bcrypt is a pair of functions passed to the handler;
  \<^item> \<open>session.Get\<close> is its result, an error or the map of session values;
  \<^item> \<open>c.Bind\<close> is its result: \<open>None\<close> for a body that does not bind;
  \<^item> \<open>c.JSON\<close> is the encoding of encoding/json, as a JSON tree.
  Go's \<open>int\<close> and \<open>int64\<close> are \<open>int\<close>: no arithmetic of the file can overflow
  (the loop counters stay below a count the store returned).
  String comparison and \<open>order by Name asc\<close> in the store are bytewise.
\<close>

subsection \<open>JSON values and responses\<close>

datatype json =
    JNull
  | JBool bool
  | JNum int
  | JStr string
  | JArr "json list"
  | JObj "(string \<times> json) list"

datatype body = NoContent | Text string | JSON json

text \<open>
  What a handler gives back to the framework: a response it wrote (\<open>c.NoContent\<close>,
  \<open>c.String\<close>, \<open>c.JSON\<close>), an \<open>echo.NewHTTPError\<close> returned as error, or a panic.
\<close>

datatype outcome = Response nat body | HTTPError nat string | Panic

subsection \<open>The structs\<close>

text \<open>\<open>sql.NullString\<close> and \<open>sql.NullInt64\<close>: a value and a flag, false for SQL NULL.\<close>

record NullString =
  String :: string
  Valid :: bool

record NullInt64 =
  Int64 :: int
  Valid64 :: bool

record City =
  ID :: int
  Name :: NullString
  CountryCode :: NullString
  District :: NullString
  Population :: NullInt64

record CityInput =
  ID_in :: int
  Name_in :: string
  CountryCode_in :: string
  District_in :: string
  Population_in :: int

record LoginRequestBody =
  Username_req :: string
  Password_req :: string

record User =
  Username :: string
  HashedPass :: string

text \<open>A Go slice: \<open>nil\<close> until the first \<open>append\<close>.\<close>

datatype 'a slice = nil | Slice "'a list"

fun append_slice :: "'a slice \<Rightarrow> 'a \<Rightarrow> 'a slice" where
  "append_slice nil x = Slice [x]"
| "append_slice (Slice xs) x = Slice (xs @ [x])"

fun elems :: "'a slice \<Rightarrow> 'a list" where
  "elems nil = []"
| "elems (Slice xs) = xs"

subsection \<open>encoding/json on the structs\<close>

text \<open>
  \<open>omitempty\<close> leaves a field out when its value is false, 0, a nil pointer or interface,
  or an array, slice, map or string of length zero. A struct value is never empty, and
  \<open>sql.NullString\<close> and \<open>sql.NullInt64\<close> are structs without a marshaller of their own:
  they are encoded as objects of their exported fields. A nil slice is encoded as null.
\<close>

definition omitempty_int :: "string \<Rightarrow> int \<Rightarrow> (string \<times> json) list" where
  "omitempty_int k n = (if n = 0 then [] else [(k, JNum n)])"

definition omitempty_string :: "string \<Rightarrow> string \<Rightarrow> (string \<times> json) list" where
  "omitempty_string k s = (if s = [] then [] else [(k, JStr s)])"

definition marshal_NullString :: "NullString \<Rightarrow> json" where
  "marshal_NullString v = JObj [(''String'', JStr (String v)), (''Valid'', JBool (Valid v))]"

definition marshal_NullInt64 :: "NullInt64 \<Rightarrow> json" where
  "marshal_NullInt64 v = JObj [(''Int64'', JNum (Int64 v)), (''Valid'', JBool (Valid64 v))]"

definition marshal_City :: "City \<Rightarrow> json" where
  "marshal_City c = JObj (omitempty_int ''id'' (ID c) @
     [(''name'', marshal_NullString (Name c)),
      (''countryCode'', marshal_NullString (CountryCode c)),
      (''district'', marshal_NullString (District c)),
      (''population'', marshal_NullInt64 (Population c))])"

definition marshal_CityInput :: "CityInput \<Rightarrow> json" where
  "marshal_CityInput c = JObj (omitempty_int ''id'' (ID_in c) @
     omitempty_string ''name'' (Name_in c) @
     omitempty_string ''countryCode'' (CountryCode_in c) @
     omitempty_string ''district'' (District_in c) @
     omitempty_int ''population'' (Population_in c))"

definition marshal_Me :: "string \<Rightarrow> json" where
  "marshal_Me username = JObj (omitempty_string ''username'' username)"

fun marshal_strings :: "string slice \<Rightarrow> json" where
  "marshal_strings nil = JNull"
| "marshal_strings (Slice xs) = JArr (map JStr xs)"

subsection \<open>The store\<close>

text \<open>The statements the file sends, with their bind parameters.\<close>

datatype stmt =
    SelectCityByName string
  | InsertCity string string string int
  | LastInsertId
  | CountUsers string
  | InsertUser string string
  | SelectUser string
  | CountCountries
  | SelectCountryNameAt int
  | SelectCountryCode string
  | CountCities string
  | SelectCityNameAt string int
  | SelectCityByCodeAndName string string

datatype db_error = ErrNoRows | ErrOther string

text \<open>A row of table city: every column but the key may be NULL.\<close>

record city_row =
  col_ID :: int
  col_Name :: "string option"
  col_CountryCode :: "string option"
  col_District :: "string option"
  col_Population :: "int option"

text \<open>
  A row of table country is the pair of its Code and its Name. The fault function is the
  behaviour of the store during one request: the statements it fails, each with its error.
  A handler that writes returns the tables after the request; the store of a later request
  has its own fault function.
\<close>

record store =
  country_table :: "(string \<times> string) list"
  city_table :: "city_row list"
  users_table :: "User list"
  auto_increment :: int
  fault :: "stmt \<Rightarrow> string option"

definition scan_NullString :: "string option \<Rightarrow> NullString" where
  "scan_NullString v =
     (case v of None \<Rightarrow> \<lparr>String = [], Valid = False\<rparr>
      | Some s \<Rightarrow> \<lparr>String = s, Valid = True\<rparr>)"

definition scan_NullInt64 :: "int option \<Rightarrow> NullInt64" where
  "scan_NullInt64 v =
     (case v of None \<Rightarrow> \<lparr>Int64 = 0, Valid64 = False\<rparr>
      | Some n \<Rightarrow> \<lparr>Int64 = n, Valid64 = True\<rparr>)"

definition scan_City :: "city_row \<Rightarrow> City" where
  "scan_City r = \<lparr>ID = col_ID r, Name = scan_NullString (col_Name r),
     CountryCode = scan_NullString (col_CountryCode r),
     District = scan_NullString (col_District r),
     Population = scan_NullInt64 (col_Population r)\<rparr>"

text \<open>
  \<open>db.Get\<close> of sqlx: the first row of the result, \<open>sql.ErrNoRows\<close> when there is none,
  another error when the statement fails or the row does not scan into the destination.
\<close>

definition first_row :: "'a list \<Rightarrow> db_error + 'a" where
  "first_row rows = (case rows of [] \<Rightarrow> Inl ErrNoRows | r # _ \<Rightarrow> Inr r)"

definition run :: "store \<Rightarrow> stmt \<Rightarrow> (db_error + 'a) \<Rightarrow> db_error + 'a" where
  "run db s r = (case fault db s of Some e \<Rightarrow> Inl (ErrOther e) | None \<Rightarrow> r)"

text \<open>\<open>SELECT * FROM city WHERE Name=?\<close>\<close>

definition select_city_by_name :: "store \<Rightarrow> string \<Rightarrow> db_error + City" where
  "select_city_by_name db n = run db (SelectCityByName n)
     (first_row (map scan_City (filter (\<lambda>r. col_Name r = Some n) (city_table db))))"

text \<open>\<open>SELECT COUNT(*) FROM users WHERE Username=?\<close>\<close>

definition count_users :: "store \<Rightarrow> string \<Rightarrow> db_error + int" where
  "count_users db u = run db (CountUsers u)
     (Inr (int (length (filter (\<lambda>r. Username r = u) (users_table db)))))"

text \<open>\<open>SELECT * FROM users WHERE username=?\<close>\<close>

definition select_user :: "store \<Rightarrow> string \<Rightarrow> db_error + User" where
  "select_user db u = run db (SelectUser u)
     (first_row (filter (\<lambda>r. Username r = u) (users_table db)))"

text \<open>\<open>select count(*) from country\<close>\<close>

definition count_countries :: "store \<Rightarrow> db_error + int" where
  "count_countries db = run db CountCountries (Inr (int (length (country_table db))))"

text \<open>A single row at a zero-based offset of an ordered result.\<close>

definition limit1_offset :: "'a list \<Rightarrow> int \<Rightarrow> db_error + 'a" where
  "limit1_offset rows i =
     (if i < 0 then Inl (ErrOther ''offset'')
      else if nat i < length rows then Inr (rows ! nat i)
      else Inl ErrNoRows)"

text \<open>\<open>select Name from country order by Name asc limit 1 offset ?\<close>\<close>

definition country_names :: "store \<Rightarrow> string list" where
  "country_names db = sort (map snd (country_table db))"

definition select_country_name_at :: "store \<Rightarrow> int \<Rightarrow> db_error + string" where
  "select_country_name_at db i = run db (SelectCountryNameAt i)
     (limit1_offset (country_names db) i)"

text \<open>\<open>select Code from country where Name = ?\<close>\<close>

definition select_country_code :: "store \<Rightarrow> string \<Rightarrow> db_error + string" where
  "select_country_code db n = run db (SelectCountryCode n)
     (first_row (map fst (filter (\<lambda>r. snd r = n) (country_table db))))"

text \<open>\<open>select count(*) from city where CountryCode = ?\<close>\<close>

definition cities_of :: "store \<Rightarrow> string \<Rightarrow> city_row list" where
  "cities_of db code = filter (\<lambda>r. col_CountryCode r = Some code) (city_table db)"

definition count_cities :: "store \<Rightarrow> string \<Rightarrow> db_error + int" where
  "count_cities db code = run db (CountCities code)
     (Inr (int (length (cities_of db code))))"

text \<open>
  \<open>select Name from city where CountryCode = ? order by Name asc limit 1 offset ?\<close>,
  scanned into a Go string: a NULL name sorts before every string and does not scan.
\<close>

definition nulls_first :: "string option list \<Rightarrow> string option list" where
  "nulls_first ns = filter (\<lambda>v. v = None) ns @ map Some (sort (List.map_filter id ns))"

definition city_names :: "store \<Rightarrow> string \<Rightarrow> string option list" where
  "city_names db code = nulls_first (map col_Name (cities_of db code))"

definition scan_string :: "string option \<Rightarrow> db_error + string" where
  "scan_string v =
     (case v of None \<Rightarrow> Inl (ErrOther ''converting NULL to string is unsupported'')
      | Some s \<Rightarrow> Inr s)"

definition select_city_name_at :: "store \<Rightarrow> string \<Rightarrow> int \<Rightarrow> db_error + string" where
  "select_city_name_at db code i = run db (SelectCityNameAt code i)
     (case limit1_offset (city_names db code) i of
        Inl e \<Rightarrow> Inl e
      | Inr v \<Rightarrow> scan_string v)"

text \<open>\<open>select * from city where CountryCode = ? AND Name = ?\<close>\<close>

definition select_city_by_code_and_name :: "store \<Rightarrow> string \<Rightarrow> string \<Rightarrow> db_error + City" where
  "select_city_by_code_and_name db code n = run db (SelectCityByCodeAndName code n)
     (first_row (map scan_City (filter (\<lambda>r. col_Name r = Some n) (cities_of db code))))"

text \<open>
  \<open>INSERT INTO city (Name, CountryCode, District, Population) VALUES (?, ?, ?, ?)\<close>:
  the new row takes the auto-increment value as its ID. The result is the store after the
  statement and the id that \<open>LastInsertId\<close> would return.
\<close>

definition insert_city :: "store \<Rightarrow> CityInput \<Rightarrow> db_error + (store \<times> int)" where
  "insert_city db c =
     run db (InsertCity (Name_in c) (CountryCode_in c) (District_in c) (Population_in c))
       (Inr (db\<lparr>city_table := city_table db @
                 [\<lparr>col_ID = auto_increment db, col_Name = Some (Name_in c),
                   col_CountryCode = Some (CountryCode_in c),
                   col_District = Some (District_in c),
                   col_Population = Some (Population_in c)\<rparr>],
               auto_increment := auto_increment db + 1\<rparr>,
             auto_increment db))"

definition last_insert_id :: "store \<Rightarrow> int \<Rightarrow> db_error + int" where
  "last_insert_id db n = run db LastInsertId (Inr n)"

text \<open>\<open>INSERT INTO users (Username, HashedPass) VALUES (?, ?)\<close>\<close>

definition insert_user :: "store \<Rightarrow> string \<Rightarrow> string \<Rightarrow> db_error + store" where
  "insert_user db u h = run db (InsertUser u h)
     (Inr (db\<lparr>users_table := users_table db @ [\<lparr>Username = u, HashedPass = h\<rparr>]\<rparr>))"

subsection \<open>The error of a statement\<close>

text \<open>
  The error that a statement gives on a store, when it gives one: the failure of the
  statement itself or of the scan of its row. (The error of \<open>LastInsertId\<close> and of an
  insert does not depend on the id or on the row's ID.)
\<close>

definition error_of :: "db_error + 'a \<Rightarrow> db_error option" where
  "error_of r = (case r of Inl e \<Rightarrow> Some e | Inr x \<Rightarrow> None)"

fun stmt_error :: "store \<Rightarrow> stmt \<Rightarrow> db_error option" where
  "stmt_error db (SelectCityByName n) = error_of (select_city_by_name db n)"
| "stmt_error db (InsertCity n c d p) =
     error_of (insert_city db \<lparr>ID_in = 0, Name_in = n, CountryCode_in = c, District_in = d,
       Population_in = p\<rparr>)"
| "stmt_error db LastInsertId = error_of (last_insert_id db 0)"
| "stmt_error db (CountUsers u) = error_of (count_users db u)"
| "stmt_error db (InsertUser u h) = error_of (insert_user db u h)"
| "stmt_error db (SelectUser u) = error_of (select_user db u)"
| "stmt_error db CountCountries = error_of (count_countries db)"
| "stmt_error db (SelectCountryNameAt i) = error_of (select_country_name_at db i)"
| "stmt_error db (SelectCountryCode n) = error_of (select_country_code db n)"
| "stmt_error db (CountCities c) = error_of (count_cities db c)"
| "stmt_error db (SelectCityNameAt c i) = error_of (select_city_name_at db c i)"
| "stmt_error db (SelectCityByCodeAndName c n) = error_of (select_city_by_code_and_name db c n)"

subsection \<open>The calls a handler makes, in order\<close>

datatype event =
    Query stmt
  | Hash string
  | Compare string string
  | SessionGet
  | SessionSave

subsection \<open>GetCityInfoHandler\<close>

definition GetCityInfoHandler :: "store \<Rightarrow> string \<Rightarrow> outcome \<times> event list" where
  "GetCityInfoHandler db cityName =
     (case select_city_by_name db cityName of
        Inl ErrNoRows \<Rightarrow> (Response 404 NoContent, [Query (SelectCityByName cityName)])
      | Inl (ErrOther e) \<Rightarrow> (Response 500 NoContent, [Query (SelectCityByName cityName)])
      | Inr c \<Rightarrow> (Response 200 (JSON (marshal_City c)), [Query (SelectCityByName cityName)]))"

subsection \<open>PostCityHandler\<close>

text \<open>The result is the response, the store after the request and the calls made.\<close>

definition PostCityHandler ::
  "store \<Rightarrow> CityInput option \<Rightarrow> outcome \<times> store \<times> event list" where
  "PostCityHandler db bound =
     (case bound of
        None \<Rightarrow> (HTTPError 400 ''bad request body'', db, [])
      | Some c \<Rightarrow>
         (let ins = InsertCity (Name_in c) (CountryCode_in c) (District_in c) (Population_in c)
          in case insert_city db c of
            Inl e \<Rightarrow> (Response 500 NoContent, db, [Query ins])
          | Inr (db', n) \<Rightarrow>
             (case last_insert_id db' n of
                Inl e \<Rightarrow> (Response 500 NoContent, db', [Query ins, Query LastInsertId])
              | Inr i \<Rightarrow>
                 (Response 201 (JSON (marshal_CityInput (c\<lparr>ID_in := i\<rparr>))), db',
                  [Query ins, Query LastInsertId]))))"

subsection \<open>SignUpHandler\<close>

text \<open>
  \<open>GenerateFromPassword\<close> is the bcrypt call at the default cost: an error or the hash.
\<close>

definition SignUpHandler ::
  "(string \<Rightarrow> string + string) \<Rightarrow> store \<Rightarrow> LoginRequestBody option
     \<Rightarrow> outcome \<times> store \<times> event list" where
  "SignUpHandler GenerateFromPassword db bound =
     (case bound of
        None \<Rightarrow> (HTTPError 400 ''bad request body'', db, [])
      | Some req \<Rightarrow>
         if Password_req req = [] \<or> Username_req req = []
         then (Response 400 (Text ''Username or Password is empty''), db, [])
         else
           (case count_users db (Username_req req) of
              Inl e \<Rightarrow> (Response 500 NoContent, db, [Query (CountUsers (Username_req req))])
            | Inr count \<Rightarrow>
               if count > 0
               then (Response 409 (Text ''Username is already used''), db,
                     [Query (CountUsers (Username_req req))])
               else
                 (case GenerateFromPassword (Password_req req) of
                    Inl e \<Rightarrow> (Response 500 NoContent, db,
                              [Query (CountUsers (Username_req req)), Hash (Password_req req)])
                  | Inr hashedPass \<Rightarrow>
                     (case insert_user db (Username_req req) hashedPass of
                        Inl e \<Rightarrow> (Response 500 NoContent, db,
                                  [Query (CountUsers (Username_req req)),
                                   Hash (Password_req req),
                                   Query (InsertUser (Username_req req) hashedPass)])
                      | Inr db' \<Rightarrow> (Response 201 NoContent, db',
                                  [Query (CountUsers (Username_req req)),
                                   Hash (Password_req req),
                                   Query (InsertUser (Username_req req) hashedPass)])))))"

subsection \<open>LoginHandler\<close>

text \<open>\<open>bcrypt.CompareHashAndPassword\<close>: nil, the mismatch error, or another error.\<close>

datatype compare_result = Matches | ErrMismatchedHashAndPassword | CompareError string

text \<open>
  A value of the session map, of Go type \<open>interface{}\<close>. Reading a key that is not in the
  map gives the nil interface.
\<close>

datatype dyn = DNil | DString string | DInt int | DBool bool

definition index_values :: "(string \<rightharpoonup> dyn) \<Rightarrow> string \<Rightarrow> dyn" where
  "index_values m k = (case m k of None \<Rightarrow> DNil | Some v \<Rightarrow> v)"

text \<open>
  The session side of a request: what \<open>session.Get\<close> returns, and the error of
  \<open>sess.Save\<close> if it fails. The handler's result carries the values the session store
  holds after the request when a save succeeded, and \<open>None\<close> when nothing was saved.
\<close>

record session_io =
  session_Get :: "string + (string \<rightharpoonup> dyn)"
  session_Save :: "string option"

definition LoginHandler ::
  "(string \<Rightarrow> string \<Rightarrow> compare_result) \<Rightarrow> session_io \<Rightarrow> store \<Rightarrow> LoginRequestBody option
     \<Rightarrow> outcome \<times> (string \<rightharpoonup> dyn) option \<times> event list" where
  "LoginHandler CompareHashAndPassword io db bound =
     (case bound of
        None \<Rightarrow> (Response 400 (Text ''bad request body''), None, [])
      | Some req \<Rightarrow>
         if Password_req req = [] \<or> Username_req req = []
         then (Response 400 (Text ''Username or Password is empty''), None, [])
         else
           (case select_user db (Username_req req) of
              Inl ErrNoRows \<Rightarrow>
                (Response 401 NoContent, None, [Query (SelectUser (Username_req req))])
            | Inl (ErrOther e) \<Rightarrow>
                (Response 500 NoContent, None, [Query (SelectUser (Username_req req))])
            | Inr user \<Rightarrow>
               (let tr = [Query (SelectUser (Username_req req)),
                          Compare (HashedPass user) (Password_req req)]
                in case CompareHashAndPassword (HashedPass user) (Password_req req) of
                  ErrMismatchedHashAndPassword \<Rightarrow> (Response 401 NoContent, None, tr)
                | CompareError e \<Rightarrow> (Response 500 NoContent, None, tr)
                | Matches \<Rightarrow>
                   (case session_Get io of
                      Inl e \<Rightarrow>
                        (Response 500 (Text ''something wrong in getting session''), None,
                         tr @ [SessionGet])
                    | Inr values \<Rightarrow>
                       (Response 200 NoContent,
                        (case session_Save io of
                           None \<Rightarrow> Some (values(''userName'' \<mapsto> DString (Username_req req)))
                         | Some e \<Rightarrow> None),
                        tr @ [SessionGet, SessionSave])))))"

subsection \<open>UserAuthMiddleware and GetMeHandler\<close>

text \<open>
  The echo context of a request, as far as the two use it: the session that
  \<open>session.Get\<close> returns for it, and the values of \<open>c.Set\<close> and \<open>c.Get\<close>.
\<close>

record echo_context =
  session_of :: "string + (string \<rightharpoonup> dyn)"
  store_of :: "string \<rightharpoonup> dyn"

definition UserAuthMiddleware :: "(echo_context \<Rightarrow> outcome) \<Rightarrow> echo_context \<Rightarrow> outcome" where
  "UserAuthMiddleware next c =
     (case session_of c of
        Inl e \<Rightarrow> Response 500 (Text ''something wrong in getting session'')
      | Inr values \<Rightarrow>
         (case index_values values ''userName'' of
            DNil \<Rightarrow> Response 401 (Text ''please login'')
          | DString s \<Rightarrow> next (c\<lparr>store_of := (store_of c)(''userName'' \<mapsto> DString s)\<rparr>)
          | DInt n \<Rightarrow> Panic
          | DBool b \<Rightarrow> Panic))"

definition GetMeHandler :: "echo_context \<Rightarrow> outcome" where
  "GetMeHandler c =
     (case index_values (store_of c) ''userName'' of
        DString s \<Rightarrow> Response 200 (JSON (marshal_Me s))
      | DNil \<Rightarrow> Panic
      | DInt n \<Rightarrow> Panic
      | DBool b \<Rightarrow> Panic)"

subsection \<open>GetWorldHandler\<close>

text \<open>
  The two loops \<open>for i := 0; i < n; i++\<close>: one statement per index, the names appended to
  the slice. The result is the early response of a failed statement, or the slice.
\<close>

definition not_found_or_500 :: "db_error \<Rightarrow> outcome" where
  "not_found_or_500 e =
     (case e of ErrNoRows \<Rightarrow> Response 404 NoContent | ErrOther m \<Rightarrow> Response 500 NoContent)"

function countries_loop ::
  "store \<Rightarrow> int \<Rightarrow> int \<Rightarrow> string slice \<Rightarrow> event list \<Rightarrow> (outcome + string slice) \<times> event list"
  where
  "countries_loop db howManyCountries i countries tr =
     (if i < howManyCountries
      then (case select_country_name_at db i of
              Inl e \<Rightarrow> (Inl (not_found_or_500 e), tr @ [Query (SelectCountryNameAt i)])
            | Inr country \<Rightarrow>
                countries_loop db howManyCountries (i + 1) (append_slice countries country)
                  (tr @ [Query (SelectCountryNameAt i)]))
      else (Inr countries, tr))"
  by pat_completeness auto
termination
  by (relation "measure (\<lambda>(db, n, i, acc, tr). nat (n - i))") auto

function cities_loop ::
  "store \<Rightarrow> string \<Rightarrow> int \<Rightarrow> int \<Rightarrow> string slice \<Rightarrow> event list
     \<Rightarrow> (outcome + string slice) \<times> event list"
  where
  "cities_loop db countryCode howManyCities i cities tr =
     (if i < howManyCities
      then (case select_city_name_at db countryCode i of
              Inl e \<Rightarrow> (Inl (not_found_or_500 e), tr @ [Query (SelectCityNameAt countryCode i)])
            | Inr city \<Rightarrow>
                cities_loop db countryCode howManyCities (i + 1) (append_slice cities city)
                  (tr @ [Query (SelectCityNameAt countryCode i)]))
      else (Inr cities, tr))"
  by pat_completeness auto
termination
  by (relation "measure (\<lambda>(db, code, n, i, acc, tr). nat (n - i))") auto

text \<open>
  The equations of the loops are recursive without a pattern: they are unfolded by hand, one
  iteration at a time.
\<close>

declare countries_loop.simps [simp del]

declare cities_loop.simps [simp del]

definition GetWorldHandler :: "store \<Rightarrow> string \<Rightarrow> string \<Rightarrow> outcome \<times> event list" where
  "GetWorldHandler db countryName cityName =
     (if countryName = ''allCountries''
      then
        (case count_countries db of
           Inl e \<Rightarrow> (not_found_or_500 e, [Query CountCountries])
         | Inr howManyCountries \<Rightarrow>
            (case countries_loop db howManyCountries 0 nil [Query CountCountries] of
               (Inl r, tr) \<Rightarrow> (r, tr)
             | (Inr countries, tr) \<Rightarrow> (Response 200 (JSON (marshal_strings countries)), tr)))
      else if cityName = ''allCities''
      then
        (case select_country_code db countryName of
           Inl e \<Rightarrow> (not_found_or_500 e, [Query (SelectCountryCode countryName)])
         | Inr countryCode \<Rightarrow>
            (case count_cities db countryCode of
               Inl e \<Rightarrow> (not_found_or_500 e,
                         [Query (SelectCountryCode countryName), Query (CountCities countryCode)])
             | Inr howManyCities \<Rightarrow>
                (case cities_loop db countryCode howManyCities 0 nil
                        [Query (SelectCountryCode countryName), Query (CountCities countryCode)] of
                   (Inl r, tr) \<Rightarrow> (r, tr)
                 | (Inr cities, tr) \<Rightarrow> (Response 200 (JSON (marshal_strings cities)), tr))))
      else
        (case select_country_code db countryName of
           Inl e \<Rightarrow> (not_found_or_500 e, [Query (SelectCountryCode countryName)])
         | Inr countryCode \<Rightarrow>
            (case select_city_by_code_and_name db countryCode cityName of
               Inl e \<Rightarrow> (not_found_or_500 e,
                         [Query (SelectCountryCode countryName),
                          Query (SelectCityByCodeAndName countryCode cityName)])
             | Inr cityInfo \<Rightarrow>
                (Response 200 (JSON (marshal_City cityInfo)),
                 [Query (SelectCountryCode countryName),
                  Query (SelectCityByCodeAndName countryCode cityName)]))))"

subsection \<open>A sample store\<close>

text \<open>
  Concrete data to run the handlers on: a store that answers every statement, and a stand-in
  for bcrypt whose hash of \<open>p\<close> is \<open>#p\<close>.
\<close>

definition no_fault :: "stmt \<Rightarrow> string option" where
  "no_fault s = None"

definition sample_hash :: "string \<Rightarrow> string + string" where
  "sample_hash p = Inr (''#'' @ p)"

definition sample_compare :: "string \<Rightarrow> string \<Rightarrow> compare_result" where
  "sample_compare h p =
     (if h = ''#'' @ p then Matches
      else if take 1 h = ''#'' then ErrMismatchedHashAndPassword
      else CompareError ''hash too short'')"

definition sample_store :: store where
  "sample_store =
     \<lparr>country_table = [(''JPN'', ''Japan''), (''AFG'', ''Afghanistan'')],
      city_table =
        [\<lparr>col_ID = 1, col_Name = Some ''Tokyo'', col_CountryCode = Some ''JPN'',
          col_District = None, col_Population = None\<rparr>,
         \<lparr>col_ID = 2, col_Name = Some ''Osaka'', col_CountryCode = Some ''JPN'',
          col_District = Some ''Osaka'', col_Population = Some 2595674\<rparr>],
      users_table = [\<lparr>Username = ''alice'', HashedPass = ''#secret''\<rparr>],
      auto_increment = 3, fault = no_fault\<rparr>"

definition alice_login :: LoginRequestBody where
  "alice_login = \<lparr>Username_req = ''alice'', Password_req = ''secret''\<rparr>"

definition bob_login :: LoginRequestBody where
  "bob_login = \<lparr>Username_req = ''bob'', Password_req = ''secret''\<rparr>"

definition alice_wrong_login :: LoginRequestBody where
  "alice_wrong_login = \<lparr>Username_req = ''alice'', Password_req = ''guess''\<rparr>"

definition kyoto :: CityInput where
  "kyoto = \<lparr>ID_in = 99, Name_in = ''Kyoto'', CountryCode_in = ''JPN'', District_in = [],
     Population_in = 1461974\<rparr>"

text \<open>Stores in which one statement fails.\<close>

definition insert_city_fails :: "stmt \<Rightarrow> string option" where
  "insert_city_fails s =
     (case s of InsertCity n c d p \<Rightarrow> Some ''connection refused'' | _ \<Rightarrow> None)"

definition last_insert_id_fails :: "stmt \<Rightarrow> string option" where
  "last_insert_id_fails s = (case s of LastInsertId \<Rightarrow> Some ''not supported'' | _ \<Rightarrow> None)"

definition count_users_fails :: "stmt \<Rightarrow> string option" where
  "count_users_fails s =
     (case s of CountUsers u \<Rightarrow> Some ''connection refused'' | _ \<Rightarrow> None)"

definition insert_user_fails :: "stmt \<Rightarrow> string option" where
  "insert_user_fails s =
     (case s of InsertUser u h \<Rightarrow> Some ''connection refused'' | _ \<Rightarrow> None)"

definition hash_fails :: "string \<Rightarrow> string + string" where
  "hash_fails p = Inl ''password length exceeds 72 bytes''"

definition no_password :: LoginRequestBody where
  "no_password = \<lparr>Username_req = ''bob'', Password_req = []\<rparr>"

text \<open>A country table in which two countries have the same name.\<close>

definition twin_names :: store where
  "twin_names =
     \<lparr>country_table = [(''GEO'', ''Georgia''), (''USG'', ''Georgia'')],
      city_table = [], users_table = [], auto_increment = 1, fault = no_fault\<rparr>"

definition all_fail :: "stmt \<Rightarrow> string option" where
  "all_fail s = Some ''connection refused''"

definition second_offset_fails :: "stmt \<Rightarrow> string option" where
  "second_offset_fails s =
     (case s of SelectCountryNameAt i \<Rightarrow> if i = 1 then Some ''connection reset'' else None
      | _ \<Rightarrow> None)"

text \<open>A store in which a city of Japan has no name.\<close>

definition null_name_store :: store where
  "null_name_store =
     sample_store\<lparr>city_table := city_table sample_store @
       [\<lparr>col_ID = 3, col_Name = None, col_CountryCode = Some ''JPN'',
         col_District = None, col_Population = None\<rparr>]\<rparr>"

text \<open>A store in which alice's hash is not a bcrypt hash.\<close>

definition malformed_hash_store :: store where
  "malformed_hash_store =
     sample_store\<lparr>users_table := [\<lparr>Username = ''alice'', HashedPass = ''secret''\<rparr>]\<rparr>"

text \<open>Sessions: one that is fetched and saved, one whose fetch fails.\<close>

definition fresh_session :: session_io where
  "fresh_session = \<lparr>session_Get = Inr Map.empty, session_Save = None\<rparr>"

definition broken_session :: session_io where
  "broken_session =
     \<lparr>session_Get = Inl ''securecookie: the value is not valid'', session_Save = None\<rparr>"

section \<open>Properties\<close>

subsection \<open>Login and the session\<close>

text \<open>
  C9. A login whose credentials were verified and whose session was fetched answers 200
  whatever \<open>sess.Save\<close> returns: the handler drops that result. When the save fails the
  answer is still 200 and the session store holds nothing new.
\<close>

theorem LoginHandler_ignores_save_error:
  assumes "Password_req req \<noteq> []" and "Username_req req \<noteq> []"
    and "select_user db (Username_req req) = Inr user"
    and "CompareHashAndPassword (HashedPass user) (Password_req req) = Matches"
    and "session_Get io = Inr vals"
  shows "fst (LoginHandler CompareHashAndPassword (io\<lparr>session_Save := sv\<rparr>) db (Some req))
           = Response 200 NoContent
         \<and> fst (snd (LoginHandler CompareHashAndPassword (io\<lparr>session_Save := Some e\<rparr>) db
                  (Some req))) = None"
  using assms by (simp add: LoginHandler_def)

theorem LoginHandler_ignores_save_error_witness:
  "fst (LoginHandler sample_compare
          \<lparr>session_Get = Inr Map.empty, session_Save = Some ''write failed''\<rparr>
          sample_store (Some alice_login)) = Response 200 NoContent
   \<and> fst (snd (LoginHandler sample_compare
          \<lparr>session_Get = Inr Map.empty, session_Save = Some ''write failed''\<rparr>
          sample_store (Some alice_login))) = None"
proof -
  have u: "select_user sample_store (Username_req alice_login)
             = Inr \<lparr>Username = ''alice'', HashedPass = ''#secret''\<rparr>"
    by (simp add: select_user_def run_def first_row_def sample_store_def no_fault_def
        alice_login_def)
  have c: "sample_compare (HashedPass \<lparr>Username = ''alice'', HashedPass = ''#secret''\<rparr>)
             (Password_req alice_login) = Matches"
    by (simp add: sample_compare_def alice_login_def)
  have p: "Password_req alice_login \<noteq> []" "Username_req alice_login \<noteq> []"
    by (simp_all add: alice_login_def)
  show ?thesis
    using LoginHandler_ignores_save_error
      [of alice_login sample_store _ sample_compare
          "\<lparr>session_Get = Inr Map.empty, session_Save = None\<rparr>" Map.empty
          "Some ''write failed''" "''write failed''", OF p u c]
    by simp
qed

text \<open>
  C10. The middleware casts the session's userName to a string without a check. The only
  write to that key, in the login handler, stores the submitted username as a string: on a
  session the login handler saved, the cast succeeds and control reaches the next handler.
  On a session whose value is neither nil nor a string the middleware panics: it answers
  neither 401 nor 500.
\<close>

theorem cast_of_userName:
  "(LoginHandler CompareHashAndPassword io db (Some req) = (r, Some vals, tr)
      \<longrightarrow> index_values vals ''userName'' = DString (Username_req req)
        \<and> UserAuthMiddleware next \<lparr>session_of = Inr vals, store_of = ctx\<rparr>
            = next \<lparr>session_of = Inr vals,
                    store_of = ctx(''userName'' \<mapsto> DString (Username_req req))\<rparr>)
   \<and> (vals' ''userName'' = Some v \<and> v \<noteq> DNil \<and> (\<forall>s. v \<noteq> DString s)
      \<longrightarrow> UserAuthMiddleware next \<lparr>session_of = Inr vals', store_of = ctx\<rparr> = Panic)"
proof (intro conjI impI)
  assume a: "LoginHandler CompareHashAndPassword io db (Some req) = (r, Some vals, tr)"
  then have v: "vals ''userName'' = Some (DString (Username_req req))"
    by (auto simp: LoginHandler_def Let_def
        split: if_splits sum.splits db_error.splits compare_result.splits option.splits)
  then show "index_values vals ''userName'' = DString (Username_req req)"
    by (simp add: index_values_def)
  then show "UserAuthMiddleware next \<lparr>session_of = Inr vals, store_of = ctx\<rparr>
            = next \<lparr>session_of = Inr vals,
                    store_of = ctx(''userName'' \<mapsto> DString (Username_req req))\<rparr>"
    by (simp add: UserAuthMiddleware_def)
next
  assume "vals' ''userName'' = Some v \<and> v \<noteq> DNil \<and> (\<forall>s. v \<noteq> DString s)"
  then show "UserAuthMiddleware next \<lparr>session_of = Inr vals', store_of = ctx\<rparr> = Panic"
    by (cases v) (simp_all add: UserAuthMiddleware_def index_values_def)
qed

theorem cast_of_userName_witness:
  "LoginHandler sample_compare \<lparr>session_Get = Inr Map.empty, session_Save = None\<rparr>
       sample_store (Some alice_login)
     = (Response 200 NoContent, Some [''userName'' \<mapsto> DString ''alice''],
        [Query (SelectUser ''alice''), Compare ''#secret'' ''secret'', SessionGet, SessionSave])
   \<and> UserAuthMiddleware GetMeHandler
        \<lparr>session_of = Inr [''userName'' \<mapsto> DString ''alice''], store_of = Map.empty\<rparr>
     = GetMeHandler \<lparr>session_of = Inr [''userName'' \<mapsto> DString ''alice''],
                     store_of = [''userName'' \<mapsto> DString ''alice'']\<rparr>
   \<and> UserAuthMiddleware GetMeHandler
        \<lparr>session_of = Inr [''userName'' \<mapsto> DInt 7], store_of = Map.empty\<rparr> = Panic"
proof -
  have l: "LoginHandler sample_compare \<lparr>session_Get = Inr Map.empty, session_Save = None\<rparr>
       sample_store (Some alice_login)
     = (Response 200 NoContent, Some [''userName'' \<mapsto> DString ''alice''],
        [Query (SelectUser ''alice''), Compare ''#secret'' ''secret'', SessionGet, SessionSave])"
    by (simp add: LoginHandler_def select_user_def run_def first_row_def sample_store_def
        no_fault_def alice_login_def sample_compare_def)
  have n: "[''userName'' \<mapsto> DInt 7] ''userName'' = Some (DInt 7) \<and> DInt 7 \<noteq> DNil
           \<and> (\<forall>s. DInt 7 \<noteq> DString s)"
    by simp
  show ?thesis
    using l n cast_of_userName
      [of sample_compare "\<lparr>session_Get = Inr Map.empty, session_Save = None\<rparr>" sample_store
          alice_login "Response 200 NoContent" "[''userName'' \<mapsto> DString ''alice'']"
          "[Query (SelectUser ''alice''), Compare ''#secret'' ''secret'', SessionGet, SessionSave]"
          GetMeHandler Map.empty "[''userName'' \<mapsto> DInt 7]" "DInt 7"]
    by (simp add: alice_login_def)
qed

lemma first_row_filter_Nil:
  "x \<notin> f ` set rows \<Longrightarrow> first_row (filter (\<lambda>r. f r = x) rows) = Inl ErrNoRows"
  by (induction rows) (auto simp: first_row_def)

lemma first_row_filter_Cons:
  "x \<in> f ` set rows \<Longrightarrow>
     \<exists>r. first_row (filter (\<lambda>r. f r = x) rows) = Inr r \<and> r \<in> set rows \<and> f r = x"
  by (induction rows) (auto simp: first_row_def)

text \<open>
  C2. For a login with a non-empty username and password, on a store that answers the
  user query: a username with no row, and a username with a row whose hash does not match
  the password, both get 401 with no body and no session is saved. The two responses are
  the same.
\<close>

theorem login_failures_indistinguishable:
  assumes nonempty: "Password_req req1 \<noteq> []" "Username_req req1 \<noteq> []"
      "Password_req req2 \<noteq> []" "Username_req req2 \<noteq> []"
    and answers: "fault db (SelectUser (Username_req req1)) = None"
      "fault db (SelectUser (Username_req req2)) = None"
    and nonexistent: "Username_req req1 \<notin> Username ` set (users_table db)"
    and existing: "Username_req req2 \<in> Username ` set (users_table db)"
    and wrong: "\<forall>r \<in> set (users_table db). Username r = Username_req req2 \<longrightarrow>
        CompareHashAndPassword (HashedPass r) (Password_req req2) = ErrMismatchedHashAndPassword"
  shows "fst (LoginHandler CompareHashAndPassword io db (Some req1)) = Response 401 NoContent
       \<and> fst (LoginHandler CompareHashAndPassword io db (Some req2)) = Response 401 NoContent
       \<and> fst (snd (LoginHandler CompareHashAndPassword io db (Some req1))) = None
       \<and> fst (snd (LoginHandler CompareHashAndPassword io db (Some req2))) = None"
proof -
  have 1: "select_user db (Username_req req1) = Inl ErrNoRows"
    using answers(1) nonexistent by (simp add: select_user_def run_def first_row_filter_Nil)
  obtain r where r: "select_user db (Username_req req2) = Inr r" "r \<in> set (users_table db)"
      "Username r = Username_req req2"
    using answers(2) first_row_filter_Cons [OF existing] by (auto simp: select_user_def run_def)
  then have 2: "CompareHashAndPassword (HashedPass r) (Password_req req2)
                  = ErrMismatchedHashAndPassword"
    using wrong by blast
  show ?thesis
    using nonempty 1 r(1) 2 by (simp add: LoginHandler_def)
qed

theorem login_failures_indistinguishable_witness:
  "fst (LoginHandler sample_compare \<lparr>session_Get = Inr Map.empty, session_Save = None\<rparr>
          sample_store (Some bob_login)) = Response 401 NoContent
   \<and> fst (LoginHandler sample_compare \<lparr>session_Get = Inr Map.empty, session_Save = None\<rparr>
          sample_store (Some alice_wrong_login)) = Response 401 NoContent"
proof -
  have "Password_req bob_login \<noteq> []" "Username_req bob_login \<noteq> []"
      "Password_req alice_wrong_login \<noteq> []" "Username_req alice_wrong_login \<noteq> []"
      "fault sample_store (SelectUser (Username_req bob_login)) = None"
      "fault sample_store (SelectUser (Username_req alice_wrong_login)) = None"
      "Username_req bob_login \<notin> Username ` set (users_table sample_store)"
      "Username_req alice_wrong_login \<in> Username ` set (users_table sample_store)"
      "\<forall>r \<in> set (users_table sample_store). Username r = Username_req alice_wrong_login \<longrightarrow>
        sample_compare (HashedPass r) (Password_req alice_wrong_login)
          = ErrMismatchedHashAndPassword"
    by (simp_all add: bob_login_def alice_wrong_login_def sample_store_def no_fault_def
        sample_compare_def)
  from login_failures_indistinguishable
    [of bob_login alice_wrong_login sample_store sample_compare
        "\<lparr>session_Get = Inr Map.empty, session_Save = None\<rparr>", OF this]
  show ?thesis
    by simp
qed

subsection \<open>Creating a city\<close>

text \<open>
  C8. POST /cities: a body that does not bind gets 400. A bound body is inserted as it is,
  whatever its fields (empty strings too): when the insert and the id retrieval succeed the
  answer is 201 with the submitted CityInput, its id set to the id the store generated, and
  the store has the new row. When the insert fails, or the id retrieval fails, the answer
  is 500.
\<close>

theorem PostCityHandler_contract:
  "PostCityHandler db None = (HTTPError 400 ''bad request body'', db, [])
   \<and> (fault db (InsertCity (Name_in c) (CountryCode_in c) (District_in c) (Population_in c))
          = None
        \<and> fault db LastInsertId = None
      \<longrightarrow> PostCityHandler db (Some c) =
           (Response 201 (JSON (marshal_CityInput (c\<lparr>ID_in := auto_increment db\<rparr>))),
            db\<lparr>city_table := city_table db @
                 [\<lparr>col_ID = auto_increment db, col_Name = Some (Name_in c),
                   col_CountryCode = Some (CountryCode_in c),
                   col_District = Some (District_in c),
                   col_Population = Some (Population_in c)\<rparr>],
               auto_increment := auto_increment db + 1\<rparr>,
            [Query (InsertCity (Name_in c) (CountryCode_in c) (District_in c) (Population_in c)),
             Query LastInsertId]))
   \<and> (fault db (InsertCity (Name_in c) (CountryCode_in c) (District_in c) (Population_in c))
          = Some e
      \<longrightarrow> fst (PostCityHandler db (Some c)) = Response 500 NoContent)
   \<and> (fault db LastInsertId = Some e
      \<longrightarrow> fst (PostCityHandler db (Some c)) = Response 500 NoContent)"
  by (simp add: PostCityHandler_def insert_city_def last_insert_id_def run_def Let_def
      split: option.splits)

theorem PostCityHandler_contract_witness:
  "fst (PostCityHandler sample_store (Some kyoto))
     = Response 201 (JSON (JObj [(''id'', JNum 3), (''name'', JStr ''Kyoto''),
         (''countryCode'', JStr ''JPN''), (''population'', JNum 1461974)]))
   \<and> city_table (fst (snd (PostCityHandler sample_store (Some kyoto))))
     = city_table sample_store @
         [\<lparr>col_ID = 3, col_Name = Some ''Kyoto'', col_CountryCode = Some ''JPN'',
           col_District = Some [], col_Population = Some 1461974\<rparr>]
   \<and> fst (PostCityHandler (sample_store\<lparr>fault := insert_city_fails\<rparr>) (Some kyoto))
     = Response 500 NoContent
   \<and> fst (PostCityHandler (sample_store\<lparr>fault := last_insert_id_fails\<rparr>) (Some kyoto))
     = Response 500 NoContent"
  using PostCityHandler_contract [of sample_store kyoto]
    PostCityHandler_contract
      [of "sample_store\<lparr>fault := insert_city_fails\<rparr>" kyoto "''connection refused''"]
    PostCityHandler_contract
      [of "sample_store\<lparr>fault := last_insert_id_fails\<rparr>" kyoto "''not supported''"]
  by (simp add: sample_store_def kyoto_def no_fault_def insert_city_fails_def
      last_insert_id_fails_def marshal_CityInput_def omitempty_int_def omitempty_string_def)

subsection \<open>Signing up\<close>

text \<open>
  C1, as the code has it. The claim's cascade has no case for a user-count query that
  fails: by its last clause such a request would get 201, and the handler answers 500.
\<close>

theorem SignUpHandler_count_failure:
  "Username_req bob_login \<noteq> [] \<and> Password_req bob_login \<noteq> []
   \<and> count_users (sample_store\<lparr>fault := count_users_fails\<rparr>) (Username_req bob_login)
       = Inl (ErrOther ''connection refused'')
   \<and> sample_hash (Password_req bob_login) = Inr ''#secret''
   \<and> fault (sample_store\<lparr>fault := count_users_fails\<rparr>) (InsertUser ''bob'' ''#secret'') = None
   \<and> SignUpHandler sample_hash (sample_store\<lparr>fault := count_users_fails\<rparr>) (Some bob_login)
       = (Response 500 NoContent, sample_store\<lparr>fault := count_users_fails\<rparr>,
          [Query (CountUsers ''bob'')])"
  by (simp add: SignUpHandler_def count_users_def run_def bob_login_def sample_hash_def
      count_users_fails_def)

lemma filter_eq_Nil_image:
  "(filter (\<lambda>r. f r = x) rows = []) = (x \<notin> f ` set rows)"
  by (induction rows) auto

lemma SignUpHandler_Created:
  assumes "SignUpHandler G db (Some req) = (Response 201 NoContent, db', tr)"
  shows "Username_req req \<noteq> []
         \<and> Username_req req \<in> Username ` set (users_table db')"
  using assms
  by (auto simp: SignUpHandler_def count_users_def insert_user_def run_def
      split: option.splits sum.splits if_splits)

text \<open>
  C1, amended. For every signup request: a body that does not bind gets 400; else an empty
  username or password gets 400 with body "Username or Password is empty"; else a failing
  user-count query gets 500; else a username that has a row gets 409 with body "Username is
  already used"; else a failing hash or a failing insert gets 500; otherwise the answer is
  201 with an empty body. The count query is the first call the handler makes, so it comes
  before the hash and the insert; on 409 it is the only call and the store is unchanged;
  the store changes only on 201. After a 201, a later signup of the same username, on a
  store that still has the rows of the users table, gets 409 when its own count query
  succeeds and 500 when that query fails.
\<close>

theorem SignUpHandler_cascade:
  "fst (SignUpHandler GenerateFromPassword db bound) =
     (case bound of
        None \<Rightarrow> HTTPError 400 ''bad request body''
      | Some req \<Rightarrow>
          if Username_req req = [] \<or> Password_req req = []
          then Response 400 (Text ''Username or Password is empty'')
          else if fault db (CountUsers (Username_req req)) \<noteq> None
          then Response 500 NoContent
          else if Username_req req \<in> Username ` set (users_table db)
          then Response 409 (Text ''Username is already used'')
          else (case GenerateFromPassword (Password_req req) of
                  Inl e \<Rightarrow> Response 500 NoContent
                | Inr hashedPass \<Rightarrow>
                    if fault db (InsertUser (Username_req req) hashedPass) \<noteq> None
                    then Response 500 NoContent
                    else Response 201 NoContent))
   \<and> (fst (SignUpHandler GenerateFromPassword db (Some req))
          = Response 409 (Text ''Username is already used'')
      \<longrightarrow> snd (SignUpHandler GenerateFromPassword db (Some req))
          = (db, [Query (CountUsers (Username_req req))]))
   \<and> (\<forall>ev \<in> set (snd (snd (SignUpHandler GenerateFromPassword db (Some req)))).
        hd (snd (snd (SignUpHandler GenerateFromPassword db (Some req))))
          = Query (CountUsers (Username_req req)))
   \<and> (fst (SignUpHandler GenerateFromPassword db (Some req)) \<noteq> Response 201 NoContent
      \<longrightarrow> fst (snd (SignUpHandler GenerateFromPassword db (Some req))) = db)
   \<and> (SignUpHandler GenerateFromPassword db (Some req) = (Response 201 NoContent, db', tr)
        \<and> set (users_table db') \<subseteq> set (users_table later)
        \<and> Username_req again = Username_req req \<and> Password_req again \<noteq> []
      \<longrightarrow> fst (SignUpHandler GenerateAgain later (Some again))
          = (if fault later (CountUsers (Username_req again)) \<noteq> None
             then Response 500 NoContent
             else Response 409 (Text ''Username is already used'')))"
proof (intro conjI)
  show cascade: "fst (SignUpHandler G d bound) =
     (case bound of
        None \<Rightarrow> HTTPError 400 ''bad request body''
      | Some req \<Rightarrow>
          if Username_req req = [] \<or> Password_req req = []
          then Response 400 (Text ''Username or Password is empty'')
          else if fault d (CountUsers (Username_req req)) \<noteq> None
          then Response 500 NoContent
          else if Username_req req \<in> Username ` set (users_table d)
          then Response 409 (Text ''Username is already used'')
          else (case G (Password_req req) of
                  Inl e \<Rightarrow> Response 500 NoContent
                | Inr hashedPass \<Rightarrow>
                    if fault d (InsertUser (Username_req req) hashedPass) \<noteq> None
                    then Response 500 NoContent
                    else Response 201 NoContent))" for G d bound
    by (simp add: SignUpHandler_def count_users_def insert_user_def run_def
        filter_eq_Nil_image split: option.splits sum.splits)
  show "fst (SignUpHandler GenerateFromPassword db (Some req))
          = Response 409 (Text ''Username is already used'')
      \<longrightarrow> snd (SignUpHandler GenerateFromPassword db (Some req))
          = (db, [Query (CountUsers (Username_req req))])"
    by (simp add: SignUpHandler_def split: option.splits sum.splits)
  show "\<forall>ev \<in> set (snd (snd (SignUpHandler GenerateFromPassword db (Some req)))).
        hd (snd (snd (SignUpHandler GenerateFromPassword db (Some req))))
          = Query (CountUsers (Username_req req))"
    by (simp add: SignUpHandler_def split: option.splits sum.splits)
  show "fst (SignUpHandler GenerateFromPassword db (Some req)) \<noteq> Response 201 NoContent
      \<longrightarrow> fst (snd (SignUpHandler GenerateFromPassword db (Some req))) = db"
    by (simp add: SignUpHandler_def split: option.splits sum.splits)
  show "SignUpHandler GenerateFromPassword db (Some req) = (Response 201 NoContent, db', tr)
        \<and> set (users_table db') \<subseteq> set (users_table later)
        \<and> Username_req again = Username_req req \<and> Password_req again \<noteq> []
      \<longrightarrow> fst (SignUpHandler GenerateAgain later (Some again))
          = (if fault later (CountUsers (Username_req again)) \<noteq> None
             then Response 500 NoContent
             else Response 409 (Text ''Username is already used''))"
  proof
    assume a: "SignUpHandler GenerateFromPassword db (Some req) = (Response 201 NoContent, db', tr)
        \<and> set (users_table db') \<subseteq> set (users_table later)
        \<and> Username_req again = Username_req req \<and> Password_req again \<noteq> []"
    with SignUpHandler_Created [of GenerateFromPassword db req db' tr]
    have "Username_req again \<noteq> []" "Username_req again \<in> Username ` set (users_table later)"
      by auto
    with a show "fst (SignUpHandler GenerateAgain later (Some again))
          = (if fault later (CountUsers (Username_req again)) \<noteq> None
             then Response 500 NoContent
             else Response 409 (Text ''Username is already used''))"
      unfolding cascade by simp
  qed
qed

theorem SignUpHandler_cascade_witness:
  "fst (SignUpHandler sample_hash sample_store None) = HTTPError 400 ''bad request body''
   \<and> fst (SignUpHandler sample_hash sample_store (Some no_password))
       = Response 400 (Text ''Username or Password is empty'')
   \<and> fst (SignUpHandler sample_hash (sample_store\<lparr>fault := count_users_fails\<rparr>)
            (Some bob_login)) = Response 500 NoContent
   \<and> SignUpHandler sample_hash sample_store (Some alice_login)
       = (Response 409 (Text ''Username is already used''), sample_store,
          [Query (CountUsers ''alice'')])
   \<and> fst (SignUpHandler hash_fails sample_store (Some bob_login)) = Response 500 NoContent
   \<and> fst (SignUpHandler sample_hash (sample_store\<lparr>fault := insert_user_fails\<rparr>)
            (Some bob_login)) = Response 500 NoContent
   \<and> fst (SignUpHandler sample_hash sample_store (Some bob_login)) = Response 201 NoContent
   \<and> snd (snd (SignUpHandler sample_hash sample_store (Some bob_login)))
       = [Query (CountUsers ''bob''), Hash ''secret'', Query (InsertUser ''bob'' ''#secret'')]
   \<and> fst (SignUpHandler sample_hash
            (fst (snd (SignUpHandler sample_hash sample_store (Some bob_login))))
            (Some bob_login)) = Response 409 (Text ''Username is already used'')
   \<and> fst (SignUpHandler sample_hash
            (fst (snd (SignUpHandler sample_hash sample_store (Some bob_login)))
               \<lparr>fault := count_users_fails\<rparr>)
            (Some bob_login)) = Response 500 NoContent"
proof -
  note samples = bob_login_def alice_login_def no_password_def sample_store_def no_fault_def
    sample_hash_def hash_fails_def count_users_fails_def insert_user_fails_def
  have s: "SignUpHandler sample_hash sample_store (Some bob_login)
      = (Response 201 NoContent,
         sample_store\<lparr>users_table := users_table sample_store
            @ [\<lparr>Username = ''bob'', HashedPass = ''#secret''\<rparr>]\<rparr>,
         [Query (CountUsers ''bob''), Hash ''secret'', Query (InsertUser ''bob'' ''#secret'')])"
    by (simp add: SignUpHandler_def count_users_def insert_user_def run_def bob_login_def
        sample_hash_def sample_store_def no_fault_def)
  have 1: "fst (SignUpHandler sample_hash sample_store None) = HTTPError 400 ''bad request body''"
    using SignUpHandler_cascade [of sample_hash sample_store None, THEN conjunct1] by simp
  have 2: "fst (SignUpHandler sample_hash sample_store (Some no_password))
       = Response 400 (Text ''Username or Password is empty'')"
    using SignUpHandler_cascade [of sample_hash sample_store "Some no_password", THEN conjunct1]
    by (simp add: no_password_def)
  have 3: "fst (SignUpHandler sample_hash (sample_store\<lparr>fault := count_users_fails\<rparr>)
            (Some bob_login)) = Response 500 NoContent"
    using SignUpHandler_cascade [of sample_hash "sample_store\<lparr>fault := count_users_fails\<rparr>"
        "Some bob_login", THEN conjunct1]
    by (simp add: samples)
  have 4: "fst (SignUpHandler sample_hash sample_store (Some alice_login))
       = Response 409 (Text ''Username is already used'')"
    using SignUpHandler_cascade [of sample_hash sample_store "Some alice_login", THEN conjunct1]
    by (simp add: samples)
  have c4: "snd (SignUpHandler sample_hash sample_store (Some alice_login))
       = (sample_store, [Query (CountUsers ''alice'')])"
    using 4 SignUpHandler_cascade [of sample_hash sample_store _ alice_login,
        THEN conjunct2, THEN conjunct1]
    by (simp add: alice_login_def)
  have 5: "fst (SignUpHandler hash_fails sample_store (Some bob_login)) = Response 500 NoContent"
    using SignUpHandler_cascade [of hash_fails sample_store "Some bob_login", THEN conjunct1]
    by (simp add: samples)
  have 6: "fst (SignUpHandler sample_hash (sample_store\<lparr>fault := insert_user_fails\<rparr>)
            (Some bob_login)) = Response 500 NoContent"
    using SignUpHandler_cascade [of sample_hash "sample_store\<lparr>fault := insert_user_fails\<rparr>"
        "Some bob_login", THEN conjunct1]
    by (simp add: samples)
  let ?db' = "sample_store\<lparr>users_table := users_table sample_store
               @ [\<lparr>Username = ''bob'', HashedPass = ''#secret''\<rparr>]\<rparr>"
  have 7: "fst (SignUpHandler sample_hash ?db' (Some bob_login))
             = Response 409 (Text ''Username is already used'')"
    using s SignUpHandler_cascade
      [where GenerateFromPassword = sample_hash and db = sample_store and req = bob_login
         and db' = ?db' and later = ?db' and again = bob_login and GenerateAgain = sample_hash
         and tr = "[Query (CountUsers ''bob''), Hash ''secret'',
                    Query (InsertUser ''bob'' ''#secret'')]",
       THEN conjunct2, THEN conjunct2, THEN conjunct2, THEN conjunct2]
    by (simp add: bob_login_def sample_store_def no_fault_def)
  have 8: "fst (SignUpHandler sample_hash (?db'\<lparr>fault := count_users_fails\<rparr>)
             (Some bob_login)) = Response 500 NoContent"
    using s SignUpHandler_cascade
      [where GenerateFromPassword = sample_hash and db = sample_store and req = bob_login
         and db' = ?db' and later = "?db'\<lparr>fault := count_users_fails\<rparr>"
         and again = bob_login and GenerateAgain = sample_hash
         and tr = "[Query (CountUsers ''bob''), Hash ''secret'',
                    Query (InsertUser ''bob'' ''#secret'')]",
       THEN conjunct2, THEN conjunct2, THEN conjunct2, THEN conjunct2]
    by (simp add: bob_login_def count_users_fails_def)
  show ?thesis
    using 1 2 3 4 c4 5 6 7 8 by (simp add: s prod_eq_iff)
qed

subsection \<open>Reading a city\<close>

text \<open>
  C3. The claim: a nullable field of a City whose database value is absent is left out of
  the JSON output, and a present value appears as a plain string or number. The handler
  encodes the City struct as it is. For the row of Tokyo in the sample store, whose
  District and Population are NULL, GET /cities/Tokyo answers 200 with every nullable field
  present and encoded as an object: the absent district as String "" with Valid false, the
  absent population as Int64 0 with Valid false, the present name as String "Tokyo" with
  Valid true.
\<close>

theorem GetCityInfoHandler_null_fields:
  "GetCityInfoHandler sample_store ''Tokyo'' =
     (Response 200 (JSON (JObj
        [(''id'', JNum 1),
         (''name'', JObj [(''String'', JStr ''Tokyo''), (''Valid'', JBool True)]),
         (''countryCode'', JObj [(''String'', JStr ''JPN''), (''Valid'', JBool True)]),
         (''district'', JObj [(''String'', JStr []), (''Valid'', JBool False)]),
         (''population'', JObj [(''Int64'', JNum 0), (''Valid'', JBool False)])])),
      [Query (SelectCityByName ''Tokyo'')])"
  by (simp add: GetCityInfoHandler_def select_city_by_name_def run_def first_row_def
      sample_store_def no_fault_def scan_City_def scan_NullString_def scan_NullInt64_def
      marshal_City_def marshal_NullString_def marshal_NullInt64_def omitempty_int_def)

subsection \<open>The auth middleware and GET /me\<close>

text \<open>
  C7, as the code has it. A present userName is not always answered with 200 and
  \<open>{"username": value}\<close>: a value that is not a string makes the middleware panic, and
  for the empty string GET /me answers 200 with the empty object, since the username field
  is \<open>omitempty\<close>.
\<close>

theorem auth_present_userName_counterexample:
  "UserAuthMiddleware GetMeHandler
     \<lparr>session_of = Inr [''userName'' \<mapsto> DBool True], store_of = Map.empty\<rparr> = Panic
   \<and> UserAuthMiddleware GetMeHandler
     \<lparr>session_of = Inr [''userName'' \<mapsto> DString []], store_of = Map.empty\<rparr>
       = Response 200 (JSON (JObj []))"
  by (simp add: UserAuthMiddleware_def GetMeHandler_def index_values_def marshal_Me_def
      omitempty_string_def)

text \<open>
  C7, amended. For every request whose session was fetched: if the session's userName is
  absent (no entry, or nil), the middleware answers 401 with the text "please login",
  whatever the next handler is; if it is a string, the middleware stores it in the request
  context under "userName" and the answer is the next handler's on that context, so that
  GET /me answers 200 with \<open>{"username": value}\<close> when the string is not empty.
\<close>

theorem UserAuthMiddleware_contract:
  "(session_of c = Inr vals \<and> index_values vals ''userName'' = DNil
      \<longrightarrow> UserAuthMiddleware next c = Response 401 (Text ''please login''))
   \<and> (session_of c = Inr vals \<and> index_values vals ''userName'' = DString s
      \<longrightarrow> UserAuthMiddleware next c
            = next (c\<lparr>store_of := (store_of c)(''userName'' \<mapsto> DString s)\<rparr>)
        \<and> (s \<noteq> [] \<longrightarrow> UserAuthMiddleware GetMeHandler c
              = Response 200 (JSON (JObj [(''username'', JStr s)]))))"
  by (simp add: UserAuthMiddleware_def GetMeHandler_def index_values_def marshal_Me_def
      omitempty_string_def)

theorem UserAuthMiddleware_contract_witness:
  "UserAuthMiddleware GetMeHandler \<lparr>session_of = Inr Map.empty, store_of = Map.empty\<rparr>
     = Response 401 (Text ''please login'')
   \<and> UserAuthMiddleware GetMeHandler
       \<lparr>session_of = Inr [''userName'' \<mapsto> DNil], store_of = Map.empty\<rparr>
     = Response 401 (Text ''please login'')
   \<and> UserAuthMiddleware GetMeHandler
       \<lparr>session_of = Inr [''userName'' \<mapsto> DString ''alice''], store_of = Map.empty\<rparr>
     = Response 200 (JSON (JObj [(''username'', JStr ''alice'')]))"
proof -
  have 1: "UserAuthMiddleware GetMeHandler
       \<lparr>session_of = Inr Map.empty, store_of = Map.empty\<rparr>
     = Response 401 (Text ''please login'')"
    using UserAuthMiddleware_contract
      [of "\<lparr>session_of = Inr Map.empty, store_of = Map.empty\<rparr>" Map.empty GetMeHandler,
       THEN conjunct1]
    by (simp add: index_values_def)
  have 2: "UserAuthMiddleware GetMeHandler
       \<lparr>session_of = Inr [''userName'' \<mapsto> DNil], store_of = Map.empty\<rparr>
     = Response 401 (Text ''please login'')"
    using UserAuthMiddleware_contract
      [of "\<lparr>session_of = Inr [''userName'' \<mapsto> DNil], store_of = Map.empty\<rparr>"
          "[''userName'' \<mapsto> DNil]" GetMeHandler, THEN conjunct1]
    by (simp add: index_values_def)
  have 3: "UserAuthMiddleware GetMeHandler
       \<lparr>session_of = Inr [''userName'' \<mapsto> DString ''alice''], store_of = Map.empty\<rparr>
     = Response 200 (JSON (JObj [(''username'', JStr ''alice'')]))"
    using UserAuthMiddleware_contract
      [of "\<lparr>session_of = Inr [''userName'' \<mapsto> DString ''alice''], store_of = Map.empty\<rparr>"
          "[''userName'' \<mapsto> DString ''alice'']" GetMeHandler "''alice''",
       THEN conjunct2, THEN mp, THEN conjunct2]
    by (simp add: index_values_def)
  from 1 2 3 show ?thesis by simp
qed

subsection \<open>The loops of GetWorldHandler\<close>

text \<open>
  What the two loops compute: on a store that answers every offset statement, the slice is
  extended by the ordered names from the offset on, one statement per index up to the
  count minus one.
\<close>

lemma elems_foldl_append_slice:
  "elems (foldl append_slice acc xs) = elems acc @ xs"
proof (induction xs arbitrary: acc)
  case Nil
  then show ?case by simp
next
  case (Cons x xs)
  then show ?case by (cases acc) simp_all
qed

lemma foldl_append_slice_nil:
  "(foldl append_slice acc xs = nil) = (acc = nil \<and> xs = [])"
proof (induction xs arbitrary: acc)
  case Nil
  then show ?case by simp
next
  case (Cons x xs)
  then show ?case by (cases acc) simp_all
qed

lemma limit1_offset_nth:
  "0 \<le> i \<Longrightarrow> i < int (length rows) \<Longrightarrow> limit1_offset rows i = Inr (rows ! nat i)"
  by (simp add: limit1_offset_def)

lemma countries_loop_all:
  assumes "\<forall>j. fault db (SelectCountryNameAt j) = None"
    and "n = int (length (country_names db))" and "0 \<le> i" and "i \<le> n"
  shows "countries_loop db n i acc tr =
           (Inr (foldl append_slice acc (drop (nat i) (country_names db))),
            tr @ map (\<lambda>j. Query (SelectCountryNameAt j)) [i..n - 1])"
  using assms
proof (induction db n i acc tr rule: countries_loop.induct)
  case (1 db n i acc tr)
  show ?case
  proof (cases "i < n")
    case True
    have sel: "select_country_name_at db i = Inr (country_names db ! nat i)"
      using 1(2,3,4) True by (simp add: select_country_name_at_def run_def limit1_offset_nth)
    have d: "drop (nat i) (country_names db)
               = country_names db ! nat i # drop (nat (i + 1)) (country_names db)"
      using 1(3,4) True by (simp add: Cons_nth_drop_Suc nat_add_distrib)
    have u: "[i..n - 1] = i # [i + 1..n - 1]"
      using True by (simp add: upto_rec1)
    have "countries_loop db n i acc tr =
            countries_loop db n (i + 1) (append_slice acc (country_names db ! nat i))
              (tr @ [Query (SelectCountryNameAt i)])"
      using True sel by (subst countries_loop.simps) simp
    also have "\<dots> = (Inr (foldl append_slice (append_slice acc (country_names db ! nat i))
                            (drop (nat (i + 1)) (country_names db))),
                     (tr @ [Query (SelectCountryNameAt i)])
                       @ map (\<lambda>j. Query (SelectCountryNameAt j)) [i + 1..n - 1])"
      using 1(1) [OF True sel] 1(2,3,4) True by simp
    finally show ?thesis
      by (simp add: d u)
  next
    case False
    then have "i = n" using 1(5) by simp
    then show ?thesis
      using 1(3) by (subst countries_loop.simps) simp
  qed
qed

lemma select_city_name_at_Inr:
  "select_city_name_at db code i = Inr x \<Longrightarrow> 0 \<le> i \<Longrightarrow> i < int (length (city_names db code))
     \<Longrightarrow> fault db (SelectCityNameAt code i) = None \<and> city_names db code ! nat i = Some x"
  by (auto simp: select_city_name_at_def run_def limit1_offset_def scan_string_def
      split: option.splits if_splits)

lemma cities_loop_all:
  assumes "\<forall>j. fault db (SelectCityNameAt code j) = None"
    and "n = int (length (city_names db code))" and "0 \<le> i" and "i \<le> n"
    and "drop (nat i) (city_names db code) = map Some xs"
  shows "cities_loop db code n i acc tr =
           (Inr (foldl append_slice acc xs),
            tr @ map (\<lambda>j. Query (SelectCityNameAt code j)) [i..n - 1])"
  using assms
proof (induction db code n i acc tr arbitrary: xs rule: cities_loop.induct)
  case (1 db code n i acc tr)
  show ?case
  proof (cases "i < n")
    case True
    have d: "drop (nat i) (city_names db code)
               = city_names db code ! nat i # drop (nat (i + 1)) (city_names db code)"
      using 1(3,4) True by (simp add: Cons_nth_drop_Suc nat_add_distrib)
    with 1(6) obtain x xs' where x: "xs = x # xs'" "city_names db code ! nat i = Some x"
        "drop (nat (i + 1)) (city_names db code) = map Some xs'"
      by (cases xs) auto
    have sel: "select_city_name_at db code i = Inr x"
      using 1(2,3,4) True x(2)
      by (simp add: select_city_name_at_def run_def limit1_offset_nth scan_string_def)
    have u: "[i..n - 1] = i # [i + 1..n - 1]"
      using True by (simp add: upto_rec1)
    have "cities_loop db code n i acc tr =
            cities_loop db code n (i + 1) (append_slice acc x)
              (tr @ [Query (SelectCityNameAt code i)])"
      using True sel by (subst cities_loop.simps) simp
    also have "\<dots> = (Inr (foldl append_slice (append_slice acc x) xs'),
                     (tr @ [Query (SelectCityNameAt code i)])
                       @ map (\<lambda>j. Query (SelectCityNameAt code j)) [i + 1..n - 1])"
      using 1(1) [OF True sel _ _ _ _ x(3)] 1(2,3,4) True by simp
    finally show ?thesis
      by (simp add: x(1) u)
  next
    case False
    then have "i = n" using 1(5) by simp
    then show ?thesis
      using 1(3,6) by (subst cities_loop.simps) simp
  qed
qed

lemma cities_loop_Inr:
  assumes "cities_loop db code n i acc tr = (Inr s, tr')"
    and "n = int (length (city_names db code))" and "0 \<le> i" and "i \<le> n"
  shows "\<exists>xs. drop (nat i) (city_names db code) = map Some xs \<and> s = foldl append_slice acc xs"
  using assms
proof (induction db code n i acc tr rule: cities_loop.induct)
  case (1 db code n i acc tr)
  show ?case
  proof (cases "i < n")
    case True
    from 1(2) True obtain x where sel: "select_city_name_at db code i = Inr x"
      by (subst (asm) cities_loop.simps) (auto split: sum.splits)
    have nth: "city_names db code ! nat i = Some x"
      using select_city_name_at_Inr [OF sel] 1(3,4) True by simp
    have step: "cities_loop db code n (i + 1) (append_slice acc x)
              (tr @ [Query (SelectCityNameAt code i)]) = (Inr s, tr')"
      using 1(2) True sel by (subst (asm) cities_loop.simps) simp
    from 1(1) [OF True sel step] 1(3,4) True
    obtain xs where xs: "drop (nat (i + 1)) (city_names db code) = map Some xs"
        "s = foldl append_slice (append_slice acc x) xs"
      by auto
    have d: "drop (nat i) (city_names db code)
               = city_names db code ! nat i # drop (nat (i + 1)) (city_names db code)"
      using 1(3,4) True by (simp add: Cons_nth_drop_Suc nat_add_distrib)
    show ?thesis
      using xs nth d by (intro exI [of _ "x # xs"]) simp
  next
    case False
    then have "i = n" using 1(5) by simp
    moreover have "s = acc"
      using 1(2) False by (subst (asm) cities_loop.simps) simp
    ultimately show ?thesis
      using 1(3) by (intro exI [of _ "[]"]) simp
  qed
qed

lemma countries_loop_trace:
  "\<exists>rest. snd (countries_loop db n i acc tr) = tr @ rest"
proof (induction db n i acc tr rule: countries_loop.induct)
  case (1 db n i acc tr)
  show ?case
  proof (cases "i < n")
    case True
    show ?thesis
    proof (cases "select_country_name_at db i")
      case (Inl e)
      then show ?thesis using True by (subst countries_loop.simps) simp
    next
      case (Inr x)
      from 1 [OF True Inr] obtain rest where
        "snd (countries_loop db n (i + 1) (append_slice acc x)
               (tr @ [Query (SelectCountryNameAt i)]))
           = (tr @ [Query (SelectCountryNameAt i)]) @ rest" ..
      then show ?thesis using True Inr by (subst countries_loop.simps) simp
    qed
  next
    case False
    then show ?thesis by (subst countries_loop.simps) simp
  qed
qed

lemma cities_loop_trace:
  "\<exists>rest. snd (cities_loop db code n i acc tr) = tr @ rest"
proof (induction db code n i acc tr rule: cities_loop.induct)
  case (1 db code n i acc tr)
  show ?case
  proof (cases "i < n")
    case True
    show ?thesis
    proof (cases "select_city_name_at db code i")
      case (Inl e)
      then show ?thesis using True by (subst cities_loop.simps) simp
    next
      case (Inr x)
      from 1 [OF True Inr] obtain rest where
        "snd (cities_loop db code n (i + 1) (append_slice acc x)
               (tr @ [Query (SelectCityNameAt code i)]))
           = (tr @ [Query (SelectCityNameAt code i)]) @ rest" ..
      then show ?thesis using True Inr by (subst cities_loop.simps) simp
    qed
  next
    case False
    then show ?thesis by (subst cities_loop.simps) simp
  qed
qed

subsection \<open>GET /world/allCountries\<close>

text \<open>
  C4, as the code has it. The Name of a country is not a key of the table: with two
  countries of the same name, the answer repeats the name, so the order is not strict.
\<close>

theorem allCountries_not_strict:
  "GetWorldHandler twin_names ''allCountries'' ''x'' =
     (Response 200 (JSON (JArr [JStr ''Georgia'', JStr ''Georgia''])),
      [Query CountCountries, Query (SelectCountryNameAt 0), Query (SelectCountryNameAt 1)])
   \<and> \<not> sorted_wrt (<) [''Georgia'', ''Georgia'']"
  by (simp add: GetWorldHandler_def twin_names_def no_fault_def count_countries_def run_def
      select_country_name_at_def country_names_def limit1_offset_def countries_loop.simps)

text \<open>
  C4, amended. For every request GET /world/allCountries/{anything}, when the count and the
  offset statements do not fail, the answer is 200 with the slice of the country names in
  ascending order, strictly ascending when no two countries have the same name, as many as
  the country table has rows: built by one count statement followed by one offset statement
  per index from 0 to the count minus one. (The slice is nil, encoded as null, exactly when
  the table is empty.)
\<close>

theorem allCountries_ascending:
  assumes "fault db CountCountries = None"
    and "\<forall>j. fault db (SelectCountryNameAt j) = None"
  shows "\<exists>countries.
      GetWorldHandler db ''allCountries'' cityName =
        (Response 200 (JSON (marshal_strings countries)),
         Query CountCountries
           # map (\<lambda>j. Query (SelectCountryNameAt j)) [0..int (length (country_table db)) - 1])
      \<and> elems countries = sort (map snd (country_table db))
      \<and> (countries = nil) = (country_table db = [])
      \<and> sorted (elems countries)
      \<and> length (elems countries) = length (country_table db)
      \<and> (distinct (map snd (country_table db)) \<longrightarrow> sorted_wrt (<) (elems countries))"
proof -
  let ?names = "country_names db"
  let ?s = "foldl append_slice nil ?names"
  have n: "int (length ?names) = int (length (country_table db))"
    by (simp add: country_names_def)
  have loop: "countries_loop db (int (length (country_table db))) 0 nil [Query CountCountries] =
      (Inr ?s, [Query CountCountries]
         @ map (\<lambda>j. Query (SelectCountryNameAt j)) [0..int (length (country_table db)) - 1])"
    using countries_loop_all [OF assms(2), of "int (length (country_table db))" 0 nil
        "[Query CountCountries]"] n
    by simp
  have h: "GetWorldHandler db ''allCountries'' cityName =
        (Response 200 (JSON (marshal_strings ?s)),
         Query CountCountries
           # map (\<lambda>j. Query (SelectCountryNameAt j)) [0..int (length (country_table db)) - 1])"
    using assms(1) loop by (simp add: GetWorldHandler_def count_countries_def run_def)
  have e: "elems ?s = sort (map snd (country_table db))"
    by (simp add: elems_foldl_append_slice country_names_def)
  have "(sort (map snd (country_table db)) = []) = (country_table db = [])"
    by (metis length_0_conv length_sort length_map)
  then have z: "(?s = nil) = (country_table db = [])"
    by (simp add: foldl_append_slice_nil country_names_def)
  have d: "distinct (map snd (country_table db)) \<longrightarrow> sorted_wrt (<) (elems ?s)"
    unfolding e by (simp add: strict_sorted_iff)
  show ?thesis
    using h e z d by (intro exI [of _ ?s]) simp
qed

theorem allCountries_ascending_witness:
  "GetWorldHandler sample_store ''allCountries'' ''x'' =
     (Response 200 (JSON (JArr [JStr ''Afghanistan'', JStr ''Japan''])),
      [Query CountCountries, Query (SelectCountryNameAt 0), Query (SelectCountryNameAt 1)])
   \<and> sorted_wrt (<) [''Afghanistan'', ''Japan'']"
proof -
  have f: "fault sample_store CountCountries = None"
      "\<forall>j. fault sample_store (SelectCountryNameAt j) = None"
    by (simp_all add: sample_store_def no_fault_def)
  from allCountries_ascending [OF f, of "''x''"] obtain s where
    s: "GetWorldHandler sample_store ''allCountries'' ''x'' =
        (Response 200 (JSON (marshal_strings s)),
         Query CountCountries
           # map (\<lambda>j. Query (SelectCountryNameAt j))
               [0..int (length (country_table sample_store)) - 1])"
      "elems s = sort (map snd (country_table sample_store))"
      "(s = nil) = (country_table sample_store = [])"
    by blast
  have "s = Slice [''Afghanistan'', ''Japan'']"
    using s(2,3) by (cases s) (simp_all add: sample_store_def)
  moreover have "[0..int (length (country_table sample_store)) - 1] = [0, 1]"
    by (simp add: sample_store_def upto_rec1)
  ultimately show ?thesis
    using s(1) by simp
qed

subsection \<open>GET /world/{country}/{city}\<close>

lemma first_row_map_filter:
  "first_row (map g (filter P rows)) = Inl ErrNoRows \<longleftrightarrow> (\<forall>r \<in> set rows. \<not> P r)"
  by (induction rows) (auto simp: first_row_def)

lemma first_row_map_filter_Inr:
  "first_row (map g (filter P rows)) = Inr y \<Longrightarrow> \<exists>r \<in> set rows. P r \<and> y = g r"
  by (induction rows) (auto simp: first_row_def split: if_splits)

lemma first_row_map_filter_some:
  "\<exists>r \<in> set rows. P r \<Longrightarrow> \<exists>r \<in> set rows. P r \<and> first_row (map g (filter P rows)) = Inr (g r)"
  by (induction rows) (auto simp: first_row_def)

lemma filter_None_Nil: "(filter (\<lambda>v. v = None) ns = []) = (None \<notin> set ns)"
  by (induction ns) auto

lemma length_nulls_first: "length (nulls_first ns) = length ns"
  unfolding nulls_first_def by (induction ns) (auto simp: List.map_filter_simps)

lemma nulls_first_all_Some:
  assumes "nulls_first ns = map Some xs"
  shows "xs = sort (List.map_filter id ns) \<and> None \<notin> set ns"
proof -
  have "set (filter (\<lambda>v. v = None) ns) \<subseteq> set (nulls_first ns)"
    unfolding nulls_first_def by simp
  then have "set (filter (\<lambda>v. v = None) ns) \<subseteq> Some ` set xs"
    unfolding assms by simp
  then have "set (filter (\<lambda>v. v = None) ns) = {}"
    by auto
  then have n: "filter (\<lambda>v. v = None) ns = []"
    by (simp only: set_empty)
  with assms have "map Some (sort (List.map_filter id ns)) = map Some xs"
    by (simp add: nulls_first_def)
  then have "sort (List.map_filter id ns) = xs"
    by (simp add: inj_map_eq_map)
  with n show ?thesis
    by (simp add: filter_None_Nil)
qed

lemma nulls_first_no_NULL:
  "None \<notin> set ns \<Longrightarrow> nulls_first ns = map Some (sort (List.map_filter id ns))"
  by (simp add: nulls_first_def filter_None_Nil)

lemma not_found_or_500_not_200: "not_found_or_500 e \<noteq> Response 200 b"
  by (cases e) (simp_all add: not_found_or_500_def)

lemma select_country_code_Inr:
  "select_country_code db cn = Inr code \<Longrightarrow> (code, cn) \<in> set (country_table db)"
  by (auto simp: select_country_code_def run_def split: option.splits
      dest!: first_row_map_filter_Inr)

lemma cities_loop_Inl:
  "cities_loop db code n i acc tr = (Inl r, tr') \<Longrightarrow> \<exists>e. r = not_found_or_500 e"
proof (induction db code n i acc tr rule: cities_loop.induct)
  case (1 db code n i acc tr)
  show ?case
  proof (cases "i < n")
    case True
    show ?thesis
    proof (cases "select_city_name_at db code i")
      case (Inl e)
      then show ?thesis
        using 1(2) True by (subst (asm) cities_loop.simps) auto
    next
      case (Inr x)
      then have "cities_loop db code n (i + 1) (append_slice acc x)
              (tr @ [Query (SelectCityNameAt code i)]) = (Inl r, tr')"
        using 1(2) True by (subst (asm) cities_loop.simps) simp
      from 1(1) [OF True Inr this] show ?thesis .
    qed
  next
    case False
    then show ?thesis
      using 1(2) by (subst (asm) cities_loop.simps) simp
  qed
qed

lemma countries_loop_Inl:
  "countries_loop db n i acc tr = (Inl r, tr') \<Longrightarrow> \<exists>e. r = not_found_or_500 e"
proof (induction db n i acc tr rule: countries_loop.induct)
  case (1 db n i acc tr)
  show ?case
  proof (cases "i < n")
    case True
    show ?thesis
    proof (cases "select_country_name_at db i")
      case (Inl e)
      then show ?thesis
        using 1(2) True by (subst (asm) countries_loop.simps) auto
    next
      case (Inr x)
      then have "countries_loop db n (i + 1) (append_slice acc x)
              (tr @ [Query (SelectCountryNameAt i)]) = (Inl r, tr')"
        using 1(2) True by (subst (asm) countries_loop.simps) simp
      from 1(1) [OF True Inr this] show ?thesis .
    qed
  next
    case False
    then show ?thesis
      using 1(2) by (subst (asm) countries_loop.simps) simp
  qed
qed

lemma drill_down_first_call:
  assumes "cn \<noteq> ''allCountries''"
  shows "\<exists>rest. snd (GetWorldHandler db cn city) = Query (SelectCountryCode cn) # rest"
proof (cases "select_country_code db cn")
  case (Inl e)
  then show ?thesis using assms by (simp add: GetWorldHandler_def)
next
  case code: (Inr code)
  show ?thesis
  proof (cases "city = ''allCities''")
    case False
    then show ?thesis using assms code
      by (simp add: GetWorldHandler_def split: sum.splits)
  next
    case True
    show ?thesis
    proof (cases "count_cities db code")
      case (Inl e)
      then show ?thesis using assms code True by (simp add: GetWorldHandler_def)
    next
      case (Inr n)
      obtain rest where "snd (cities_loop db code n 0 nil
            [Query (SelectCountryCode cn), Query (CountCities code)])
          = [Query (SelectCountryCode cn), Query (CountCities code)] @ rest"
        using cities_loop_trace by blast
      then show ?thesis using assms code True Inr
        by (auto simp: GetWorldHandler_def split: prod.splits sum.splits)
    qed
  qed
qed

lemma drill_down_no_country:
  assumes "cn \<noteq> ''allCountries''" and "fault db (SelectCountryCode cn) = None"
    and "cn \<notin> snd ` set (country_table db)"
  shows "GetWorldHandler db cn city = (Response 404 NoContent, [Query (SelectCountryCode cn)])"
proof -
  have "\<forall>r \<in> set (country_table db). \<not> snd r = cn"
    using assms(3) by auto
  then have "first_row (map fst (filter (\<lambda>r. snd r = cn) (country_table db))) = Inl ErrNoRows"
    by (simp only: first_row_map_filter)
  then have "select_country_code db cn = Inl ErrNoRows"
    using assms(2) by (simp add: select_country_code_def run_def)
  then show ?thesis
    using assms(1) by (simp add: GetWorldHandler_def not_found_or_500_def)
qed

lemma allCities_success:
  assumes "cn \<noteq> ''allCountries''"
    and "fst (GetWorldHandler db cn ''allCities'') = Response 200 b"
  shows "\<exists>code cities. select_country_code db cn = Inr code
           \<and> b = JSON (marshal_strings cities)
           \<and> elems cities = sort (List.map_filter id (map col_Name (cities_of db code)))
           \<and> None \<notin> col_Name ` set (cities_of db code)"
proof (cases "select_country_code db cn")
  case (Inl e)
  then show ?thesis using assms by (simp add: GetWorldHandler_def not_found_or_500_not_200)
next
  case code: (Inr code)
  show ?thesis
  proof (cases "count_cities db code")
    case (Inl e)
    then show ?thesis using assms code
      by (simp add: GetWorldHandler_def not_found_or_500_not_200)
  next
    case (Inr n)
    then have n: "n = int (length (city_names db code))"
      by (auto simp: count_cities_def run_def city_names_def length_nulls_first
          split: option.splits)
    obtain res tr where loop: "cities_loop db code n 0 nil
            [Query (SelectCountryCode cn), Query (CountCities code)] = (res, tr)"
      by (cases "cities_loop db code n 0 nil
            [Query (SelectCountryCode cn), Query (CountCities code)]")
    show ?thesis
    proof (cases res)
      case (Inl r)
      then have "fst (GetWorldHandler db cn ''allCities'') = r"
        using assms(1) code Inr loop by (simp add: GetWorldHandler_def)
      moreover have "r \<noteq> Response 200 b"
        using cities_loop_Inl [OF loop [unfolded Inl]] not_found_or_500_not_200 by auto
      ultimately show ?thesis using assms(2) by simp
    next
      case s: (Inr s)
      from cities_loop_Inr [OF loop [unfolded s] n] n
      obtain xs where xs: "city_names db code = map Some xs" "s = foldl append_slice nil xs"
        by auto
      have b: "b = JSON (marshal_strings s)"
        using assms code Inr loop s by (simp add: GetWorldHandler_def)
      from nulls_first_all_Some [OF xs(1) [unfolded city_names_def]] xs(2) b code
      show ?thesis
        by (auto simp: elems_foldl_append_slice)
    qed
  qed
qed

lemma allCities_all:
  assumes "cn \<noteq> ''allCountries''" and "select_country_code db cn = Inr code"
    and "fault db (CountCities code) = None"
    and "\<forall>j. fault db (SelectCityNameAt code j) = None"
    and "None \<notin> col_Name ` set (cities_of db code)"
  shows "\<exists>cities. GetWorldHandler db cn ''allCities'' =
           (Response 200 (JSON (marshal_strings cities)),
            Query (SelectCountryCode cn) # Query (CountCities code)
              # map (\<lambda>j. Query (SelectCityNameAt code j))
                  [0..int (length (cities_of db code)) - 1])
         \<and> elems cities = sort (List.map_filter id (map col_Name (cities_of db code)))"
proof -
  let ?xs = "sort (List.map_filter id (map col_Name (cities_of db code)))"
  have names: "city_names db code = map Some ?xs"
    using assms(5) by (simp add: city_names_def nulls_first_no_NULL)
  have n: "int (length (cities_of db code)) = int (length (city_names db code))"
    by (simp add: city_names_def length_nulls_first)
  have "cities_loop db code (int (length (cities_of db code))) 0 nil
          [Query (SelectCountryCode cn), Query (CountCities code)]
        = (Inr (foldl append_slice nil ?xs),
           [Query (SelectCountryCode cn), Query (CountCities code)]
             @ map (\<lambda>j. Query (SelectCityNameAt code j))
                 [0..int (length (cities_of db code)) - 1])"
    using cities_loop_all [OF assms(4) n, of 0 ?xs nil] names by simp
  then have "GetWorldHandler db cn ''allCities'' =
           (Response 200 (JSON (marshal_strings (foldl append_slice nil ?xs))),
            Query (SelectCountryCode cn) # Query (CountCities code)
              # map (\<lambda>j. Query (SelectCityNameAt code j))
                  [0..int (length (cities_of db code)) - 1])"
    using assms(1,2,3) by (simp add: GetWorldHandler_def count_cities_def run_def)
  then show ?thesis
    by (intro exI [of _ "foldl append_slice nil ?xs"]) (simp add: elems_foldl_append_slice)
qed

lemma one_city:
  assumes "cn \<noteq> ''allCountries''" and "city \<noteq> ''allCities''"
    and "select_country_code db cn = Inr code"
    and "fault db (SelectCityByCodeAndName code city) = None"
  shows "(\<exists>r \<in> set (city_table db). col_CountryCode r = Some code \<and> col_Name r = Some city
            \<and> fst (GetWorldHandler db cn city) = Response 200 (JSON (marshal_City (scan_City r))))
         \<or> ((\<forall>r \<in> set (city_table db). \<not> (col_CountryCode r = Some code \<and> col_Name r = Some city))
            \<and> fst (GetWorldHandler db cn city) = Response 404 NoContent)"
proof -
  let ?P = "\<lambda>r. col_CountryCode r = Some code \<and> col_Name r = Some city"
  have sel: "select_city_by_code_and_name db code city
               = first_row (map scan_City (filter ?P (city_table db)))"
    using assms(4)
    by (simp add: select_city_by_code_and_name_def run_def cities_of_def)
  show ?thesis
  proof (cases "\<exists>r \<in> set (city_table db). ?P r")
    case True
    from first_row_map_filter_some [OF True, of scan_City]
    obtain r where "r \<in> set (city_table db)" "?P r"
        "first_row (map scan_City (filter ?P (city_table db))) = Inr (scan_City r)"
      by blast
    then show ?thesis
      using assms(1,2,3) sel by (auto simp: GetWorldHandler_def)
  next
    case False
    then have "first_row (map scan_City (filter ?P (city_table db))) = Inl ErrNoRows"
      by (simp only: first_row_map_filter) simp
    then show ?thesis
      using False assms(1,2,3) sel by (simp add: GetWorldHandler_def not_found_or_500_def)
  qed
qed

text \<open>
  C5. For a request GET /world/{countryName}/{cityName} with a countryName other than
  "allCountries": the lookup of the country's code is the first call; when it finds no row
  the answer is 404 and no other call is made. The code it resolves belongs to a country of
  that name. With cityName "allCities", a 200 answer carries the names of the cities of that
  code in ascending order, and that is the answer whenever the store answers the statements
  and no city of the code has a NULL name. With another cityName, when the store answers,
  the answer is 200 with a City row that has both the resolved code and the name, or 404
  when no row has both.
\<close>

theorem GetWorldHandler_drill_down:
  assumes "countryName \<noteq> ''allCountries''"
  shows "(\<exists>rest. snd (GetWorldHandler db countryName cityName)
            = Query (SelectCountryCode countryName) # rest)
    \<and> (fault db (SelectCountryCode countryName) = None
         \<and> countryName \<notin> snd ` set (country_table db)
       \<longrightarrow> GetWorldHandler db countryName cityName
           = (Response 404 NoContent, [Query (SelectCountryCode countryName)]))
    \<and> (select_country_code db countryName = Inr countryCode
       \<longrightarrow> (countryCode, countryName) \<in> set (country_table db))
    \<and> (fst (GetWorldHandler db countryName ''allCities'') = Response 200 b
       \<longrightarrow> (\<exists>code cities. select_country_code db countryName = Inr code
             \<and> b = JSON (marshal_strings cities)
             \<and> elems cities = sort (List.map_filter id (map col_Name (cities_of db code)))
             \<and> None \<notin> col_Name ` set (cities_of db code)))
    \<and> (select_country_code db countryName = Inr countryCode
         \<and> fault db (CountCities countryCode) = None
         \<and> (\<forall>j. fault db (SelectCityNameAt countryCode j) = None)
         \<and> None \<notin> col_Name ` set (cities_of db countryCode)
       \<longrightarrow> (\<exists>cities. GetWorldHandler db countryName ''allCities'' =
               (Response 200 (JSON (marshal_strings cities)),
                Query (SelectCountryCode countryName) # Query (CountCities countryCode)
                  # map (\<lambda>j. Query (SelectCityNameAt countryCode j))
                      [0..int (length (cities_of db countryCode)) - 1])
             \<and> elems cities
                 = sort (List.map_filter id (map col_Name (cities_of db countryCode)))))
    \<and> (cityName \<noteq> ''allCities''
         \<and> select_country_code db countryName = Inr countryCode
         \<and> fault db (SelectCityByCodeAndName countryCode cityName) = None
       \<longrightarrow> (\<exists>r \<in> set (city_table db).
               col_CountryCode r = Some countryCode \<and> col_Name r = Some cityName
               \<and> fst (GetWorldHandler db countryName cityName)
                   = Response 200 (JSON (marshal_City (scan_City r))))
           \<or> ((\<forall>r \<in> set (city_table db).
                  \<not> (col_CountryCode r = Some countryCode \<and> col_Name r = Some cityName))
               \<and> fst (GetWorldHandler db countryName cityName) = Response 404 NoContent))"
proof (intro conjI impI)
  show "\<exists>rest. snd (GetWorldHandler db countryName cityName)
            = Query (SelectCountryCode countryName) # rest"
    using assms by (rule drill_down_first_call)
next
  assume "fault db (SelectCountryCode countryName) = None
         \<and> countryName \<notin> snd ` set (country_table db)"
  then show "GetWorldHandler db countryName cityName
           = (Response 404 NoContent, [Query (SelectCountryCode countryName)])"
    using assms by (simp add: drill_down_no_country)
next
  assume "select_country_code db countryName = Inr countryCode"
  then show "(countryCode, countryName) \<in> set (country_table db)"
    by (rule select_country_code_Inr)
next
  assume "fst (GetWorldHandler db countryName ''allCities'') = Response 200 b"
  with assms show "\<exists>code cities. select_country_code db countryName = Inr code
             \<and> b = JSON (marshal_strings cities)
             \<and> elems cities = sort (List.map_filter id (map col_Name (cities_of db code)))
             \<and> None \<notin> col_Name ` set (cities_of db code)"
    by (rule allCities_success)
next
  assume "select_country_code db countryName = Inr countryCode
         \<and> fault db (CountCities countryCode) = None
         \<and> (\<forall>j. fault db (SelectCityNameAt countryCode j) = None)
         \<and> None \<notin> col_Name ` set (cities_of db countryCode)"
  then show "\<exists>cities. GetWorldHandler db countryName ''allCities'' =
               (Response 200 (JSON (marshal_strings cities)),
                Query (SelectCountryCode countryName) # Query (CountCities countryCode)
                  # map (\<lambda>j. Query (SelectCityNameAt countryCode j))
                      [0..int (length (cities_of db countryCode)) - 1])
             \<and> elems cities
                 = sort (List.map_filter id (map col_Name (cities_of db countryCode)))"
    using allCities_all [OF assms, of db countryCode] by blast
next
  assume "cityName \<noteq> ''allCities''
         \<and> select_country_code db countryName = Inr countryCode
         \<and> fault db (SelectCityByCodeAndName countryCode cityName) = None"
  then show "(\<exists>r \<in> set (city_table db).
               col_CountryCode r = Some countryCode \<and> col_Name r = Some cityName
               \<and> fst (GetWorldHandler db countryName cityName)
                   = Response 200 (JSON (marshal_City (scan_City r))))
           \<or> ((\<forall>r \<in> set (city_table db).
                  \<not> (col_CountryCode r = Some countryCode \<and> col_Name r = Some cityName))
               \<and> fst (GetWorldHandler db countryName cityName) = Response 404 NoContent)"
    using one_city [OF assms, of cityName db countryCode] by blast
qed

theorem GetWorldHandler_drill_down_witness:
  "GetWorldHandler sample_store ''Atlantis'' ''allCities''
     = (Response 404 NoContent, [Query (SelectCountryCode ''Atlantis'')])
   \<and> GetWorldHandler sample_store ''Japan'' ''allCities''
     = (Response 200 (JSON (JArr [JStr ''Osaka'', JStr ''Tokyo''])),
        [Query (SelectCountryCode ''Japan''), Query (CountCities ''JPN''),
         Query (SelectCityNameAt ''JPN'' 0), Query (SelectCityNameAt ''JPN'' 1)])
   \<and> fst (GetWorldHandler sample_store ''Japan'' ''Osaka'')
     = Response 200 (JSON (JObj
         [(''id'', JNum 2),
          (''name'', JObj [(''String'', JStr ''Osaka''), (''Valid'', JBool True)]),
          (''countryCode'', JObj [(''String'', JStr ''JPN''), (''Valid'', JBool True)]),
          (''district'', JObj [(''String'', JStr ''Osaka''), (''Valid'', JBool True)]),
          (''population'', JObj [(''Int64'', JNum 2595674), (''Valid'', JBool True)])]))
   \<and> fst (GetWorldHandler sample_store ''Japan'' ''Kyoto'') = Response 404 NoContent"
proof -
  have ne: "''Atlantis'' \<noteq> ''allCountries''" "''Japan'' \<noteq> ''allCountries''"
    by simp_all
  have code: "select_country_code sample_store ''Japan'' = Inr ''JPN''"
    by (simp add: select_country_code_def run_def first_row_def sample_store_def no_fault_def)
  have 1: "GetWorldHandler sample_store ''Atlantis'' ''allCities''
     = (Response 404 NoContent, [Query (SelectCountryCode ''Atlantis'')])"
    using GetWorldHandler_drill_down [OF ne(1), of sample_store "''allCities''",
        THEN conjunct2, THEN conjunct1]
    by (simp add: sample_store_def no_fault_def)
  have "\<exists>cities. GetWorldHandler sample_store ''Japan'' ''allCities'' =
               (Response 200 (JSON (marshal_strings cities)),
                Query (SelectCountryCode ''Japan'') # Query (CountCities ''JPN'')
                  # map (\<lambda>j. Query (SelectCityNameAt ''JPN'' j))
                      [0..int (length (cities_of sample_store ''JPN'')) - 1])
             \<and> elems cities
                 = sort (List.map_filter id (map col_Name (cities_of sample_store ''JPN'')))"
    using code GetWorldHandler_drill_down [OF ne(2), of sample_store _ "''JPN''",
        THEN conjunct2, THEN conjunct2, THEN conjunct2, THEN conjunct2, THEN conjunct1]
    by (simp add: sample_store_def no_fault_def cities_of_def)
  then obtain cities where c: "GetWorldHandler sample_store ''Japan'' ''allCities'' =
               (Response 200 (JSON (marshal_strings cities)),
                Query (SelectCountryCode ''Japan'') # Query (CountCities ''JPN'')
                  # map (\<lambda>j. Query (SelectCityNameAt ''JPN'' j))
                      [0..int (length (cities_of sample_store ''JPN'')) - 1])"
      "elems cities
         = sort (List.map_filter id (map col_Name (cities_of sample_store ''JPN'')))"
    by blast
  have "cities = Slice [''Osaka'', ''Tokyo'']"
    using c(2) by (cases cities)
      (simp_all add: sample_store_def cities_of_def List.map_filter_simps)
  moreover have "[0..int (length (cities_of sample_store ''JPN'')) - 1] = [0, 1]"
    by (simp add: sample_store_def cities_of_def upto_rec1)
  ultimately have 2: "GetWorldHandler sample_store ''Japan'' ''allCities''
     = (Response 200 (JSON (JArr [JStr ''Osaka'', JStr ''Tokyo''])),
        [Query (SelectCountryCode ''Japan''), Query (CountCities ''JPN''),
         Query (SelectCityNameAt ''JPN'' 0), Query (SelectCityNameAt ''JPN'' 1)])"
    using c(1) by simp
  note scan = scan_City_def scan_NullString_def scan_NullInt64_def marshal_City_def
    marshal_NullString_def marshal_NullInt64_def omitempty_int_def
  have 3: "fst (GetWorldHandler sample_store ''Japan'' ''Osaka'')
     = Response 200 (JSON (JObj
         [(''id'', JNum 2),
          (''name'', JObj [(''String'', JStr ''Osaka''), (''Valid'', JBool True)]),
          (''countryCode'', JObj [(''String'', JStr ''JPN''), (''Valid'', JBool True)]),
          (''district'', JObj [(''String'', JStr ''Osaka''), (''Valid'', JBool True)]),
          (''population'', JObj [(''Int64'', JNum 2595674), (''Valid'', JBool True)])]))"
    using code GetWorldHandler_drill_down [OF ne(2), of sample_store "''Osaka''" "''JPN''",
        THEN conjunct2, THEN conjunct2, THEN conjunct2, THEN conjunct2, THEN conjunct2]
    by (simp add: sample_store_def no_fault_def scan)
  have 4: "fst (GetWorldHandler sample_store ''Japan'' ''Kyoto'') = Response 404 NoContent"
    using code GetWorldHandler_drill_down [OF ne(2), of sample_store "''Kyoto''" "''JPN''",
        THEN conjunct2, THEN conjunct2, THEN conjunct2, THEN conjunct2, THEN conjunct2]
    by (simp add: sample_store_def no_fault_def)
  from 1 2 3 4 show ?thesis by simp
qed

subsection \<open>Failures of the store, of bcrypt and of the session\<close>

lemma error_of_Inl: "error_of (Inl e) = Some e"
  by (simp add: error_of_def)

lemma error_of_Inr: "error_of (Inr x) = None"
  by (simp add: error_of_def)

lemma error_of_Some: "error_of r = Some e \<Longrightarrow> r = Inl e"
  by (simp add: error_of_def split: sum.splits)

lemma not_found_or_500_fault: "not_found_or_500 (ErrOther e) = Response 500 NoContent"
  by (simp add: not_found_or_500_def)

lemma countries_loop_failure:
  assumes "Query s \<in> set (snd (countries_loop db n i acc tr))"
    and "stmt_error db s = Some (ErrOther e)"
    and "\<forall>s'. Query s' \<in> set tr \<longrightarrow> stmt_error db s' = None"
  shows "fst (countries_loop db n i acc tr) = Inl (Response 500 NoContent)"
  using assms
proof (induction db n i acc tr rule: countries_loop.induct)
  case (1 db n i acc tr)
  show ?case
  proof (cases "i < n")
    case True
    show ?thesis
    proof (cases "select_country_name_at db i")
      case (Inl e')
      then have tr: "snd (countries_loop db n i acc tr) = tr @ [Query (SelectCountryNameAt i)]"
        using True by (subst countries_loop.simps) simp
      with 1(2,3,4) have "s = SelectCountryNameAt i"
        by auto
      with 1(3) have "select_country_name_at db i = Inl (ErrOther e)"
        by (simp add: error_of_Some)
      then show ?thesis
        using True by (subst countries_loop.simps) (simp add: not_found_or_500_fault)
    next
      case (Inr x)
      then have ok: "stmt_error db (SelectCountryNameAt i) = None"
        by (simp add: error_of_Inr)
      have step: "countries_loop db n i acc tr
          = countries_loop db n (i + 1) (append_slice acc x)
              (tr @ [Query (SelectCountryNameAt i)])"
        using True Inr by (subst countries_loop.simps) simp
      have "fst (countries_loop db n (i + 1) (append_slice acc x)
              (tr @ [Query (SelectCountryNameAt i)])) = Inl (Response 500 NoContent)"
        using 1(2,3,4) ok by (intro 1(1) [OF True Inr]) (auto simp: step)
      then show ?thesis
        by (simp add: step)
    qed
  next
    case False
    then have "snd (countries_loop db n i acc tr) = tr"
      by (subst countries_loop.simps) simp
    with 1(2,3,4) show ?thesis by auto
  qed
qed

lemma cities_loop_failure:
  assumes "Query s \<in> set (snd (cities_loop db code n i acc tr))"
    and "stmt_error db s = Some (ErrOther e)"
    and "\<forall>s'. Query s' \<in> set tr \<longrightarrow> stmt_error db s' = None"
  shows "fst (cities_loop db code n i acc tr) = Inl (Response 500 NoContent)"
  using assms
proof (induction db code n i acc tr rule: cities_loop.induct)
  case (1 db code n i acc tr)
  show ?case
  proof (cases "i < n")
    case True
    show ?thesis
    proof (cases "select_city_name_at db code i")
      case (Inl e')
      then have tr: "snd (cities_loop db code n i acc tr)
          = tr @ [Query (SelectCityNameAt code i)]"
        using True by (subst cities_loop.simps) simp
      with 1(2,3,4) have "s = SelectCityNameAt code i"
        by auto
      with 1(3) have "select_city_name_at db code i = Inl (ErrOther e)"
        by (simp add: error_of_Some)
      then show ?thesis
        using True by (subst cities_loop.simps) (simp add: not_found_or_500_fault)
    next
      case (Inr x)
      then have ok: "stmt_error db (SelectCityNameAt code i) = None"
        by (simp add: error_of_Inr)
      have step: "cities_loop db code n i acc tr
          = cities_loop db code n (i + 1) (append_slice acc x)
              (tr @ [Query (SelectCityNameAt code i)])"
        using True Inr by (subst cities_loop.simps) simp
      have "fst (cities_loop db code n (i + 1) (append_slice acc x)
              (tr @ [Query (SelectCityNameAt code i)])) = Inl (Response 500 NoContent)"
        using 1(2,3,4) ok by (intro 1(1) [OF True Inr]) (auto simp: step)
      then show ?thesis
        by (simp add: step)
    qed
  next
    case False
    then have "snd (cities_loop db code n i acc tr) = tr"
      by (subst cities_loop.simps) simp
    with 1(2,3,4) show ?thesis by auto
  qed
qed

lemma GetWorldHandler_failure:
  assumes "Query s \<in> set (snd (GetWorldHandler db cn city))"
    and "stmt_error db s = Some (ErrOther e)"
  shows "fst (GetWorldHandler db cn city) = Response 500 NoContent"
proof (cases "cn = ''allCountries''")
  case True
  show ?thesis
  proof (cases "count_countries db")
    case (Inl e')
    with assms True have "s = CountCountries"
      by (simp add: GetWorldHandler_def)
    with assms(2) have "count_countries db = Inl (ErrOther e)"
      by (simp add: error_of_Some)
    then show ?thesis
      using True by (simp add: GetWorldHandler_def not_found_or_500_fault)
  next
    case (Inr n)
    then have ok: "stmt_error db CountCountries = None"
      by (simp add: error_of_Inr)
    obtain res tr where loop: "countries_loop db n 0 nil [Query CountCountries] = (res, tr)"
      by (cases "countries_loop db n 0 nil [Query CountCountries]")
    have "snd (GetWorldHandler db cn city) = tr"
      using True Inr loop by (simp add: GetWorldHandler_def split: sum.splits)
    with assms(1) have "Query s \<in> set (snd (countries_loop db n 0 nil [Query CountCountries]))"
      by (simp add: loop)
    from countries_loop_failure [OF this assms(2)] ok
    have "res = Inl (Response 500 NoContent)"
      by (simp add: loop)
    then show ?thesis
      using True Inr loop by (simp add: GetWorldHandler_def)
  qed
next
  case other: False
  show ?thesis
  proof (cases "select_country_code db cn")
    case (Inl e')
    with assms other have "s = SelectCountryCode cn"
      by (auto simp: GetWorldHandler_def split: if_splits)
    with assms(2) have "select_country_code db cn = Inl (ErrOther e)"
      by (simp add: error_of_Some)
    then show ?thesis
      using other by (simp add: GetWorldHandler_def not_found_or_500_fault)
  next
    case code: (Inr code)
    then have ok: "stmt_error db (SelectCountryCode cn) = None"
      by (simp add: error_of_Inr)
    show ?thesis
    proof (cases "city = ''allCities''")
      case False
      let ?q = "SelectCityByCodeAndName code city"
      have tr: "snd (GetWorldHandler db cn city) = [Query (SelectCountryCode cn), Query ?q]"
        using other False code by (simp add: GetWorldHandler_def split: sum.splits)
      with assms ok have "s = ?q"
        by auto
      with assms(2) have "select_city_by_code_and_name db code city = Inl (ErrOther e)"
        by (simp add: error_of_Some)
      then show ?thesis
        using other False code by (simp add: GetWorldHandler_def not_found_or_500_fault)
    next
      case True
      show ?thesis
      proof (cases "count_cities db code")
        case (Inl e')
        with assms other True code ok have "s = CountCities code"
          by (auto simp: GetWorldHandler_def)
        with assms(2) have "count_cities db code = Inl (ErrOther e)"
          by (simp add: error_of_Some)
        then show ?thesis
          using other True code by (simp add: GetWorldHandler_def not_found_or_500_fault)
      next
        case (Inr n)
        then have ok2: "stmt_error db (CountCities code) = None"
          by (simp add: error_of_Inr)
        let ?tr0 = "[Query (SelectCountryCode cn), Query (CountCities code)]"
        obtain res tr where loop: "cities_loop db code n 0 nil ?tr0 = (res, tr)"
          by (cases "cities_loop db code n 0 nil ?tr0")
        have "snd (GetWorldHandler db cn city) = tr"
          using other True code Inr loop by (simp add: GetWorldHandler_def split: sum.splits)
        with assms(1) have "Query s \<in> set (snd (cities_loop db code n 0 nil ?tr0))"
          by (simp add: loop)
        from cities_loop_failure [OF this assms(2)] ok ok2
        have "res = Inl (Response 500 NoContent)"
          by (simp add: loop)
        then show ?thesis
          using other True code Inr loop by (simp add: GetWorldHandler_def)
      qed
    qed
  qed
qed

lemma GetCityInfoHandler_failure:
  assumes "Query s \<in> set (snd (GetCityInfoHandler db cityName))"
    and "stmt_error db s = Some (ErrOther e)"
  shows "fst (GetCityInfoHandler db cityName) = Response 500 NoContent"
proof -
  have "s = SelectCityByName cityName"
    using assms(1) by (simp add: GetCityInfoHandler_def split: sum.splits db_error.splits)
  with assms(2) have "select_city_by_name db cityName = Inl (ErrOther e)"
    by (simp add: error_of_Some)
  then show ?thesis
    by (simp add: GetCityInfoHandler_def)
qed

lemma PostCityHandler_failure:
  assumes "Query s \<in> set (snd (snd (PostCityHandler db bound)))"
    and "stmt_error db s = Some (ErrOther e)"
  shows "fst (PostCityHandler db bound) = Response 500 NoContent"
  using assms
  by (auto simp: PostCityHandler_def insert_city_def last_insert_id_def run_def Let_def
      error_of_def split: option.splits)

lemma SignUpHandler_failure:
  assumes "Query s \<in> set (snd (snd (SignUpHandler G db bound)))"
    and "stmt_error db s = Some (ErrOther e)"
  shows "fst (SignUpHandler G db bound) = Response 500 NoContent"
  using assms
  by (auto simp: SignUpHandler_def count_users_def insert_user_def run_def error_of_def
      split: option.splits sum.splits if_splits)

lemma SignUpHandler_hash_error:
  assumes "Hash p \<in> set (snd (snd (SignUpHandler G db bound)))" and "G p = Inl e"
  shows "fst (SignUpHandler G db bound) = Response 500 NoContent"
  using assms
  by (auto simp: SignUpHandler_def split: option.splits sum.splits if_splits)

lemma LoginHandler_failure:
  assumes "Query s \<in> set (snd (snd (LoginHandler C io db bound)))"
    and "stmt_error db s = Some (ErrOther e)"
  shows "fst (LoginHandler C io db bound) = Response 500 NoContent"
proof (cases bound)
  case None
  with assms show ?thesis by (simp add: LoginHandler_def)
next
  case (Some req)
  show ?thesis
  proof (cases "Password_req req = [] \<or> Username_req req = []")
    case True
    with assms Some show ?thesis by (simp add: LoginHandler_def)
  next
    case False
    have "s = SelectUser (Username_req req)"
      using assms(1) Some False
      by (auto simp: LoginHandler_def Let_def
          split: sum.splits db_error.splits compare_result.splits)
    with assms(2) have "select_user db (Username_req req) = Inl (ErrOther e)"
      by (simp add: error_of_Some)
    then show ?thesis
      using Some False by (simp add: LoginHandler_def)
  qed
qed

lemma LoginHandler_compare_error:
  assumes "Compare h p \<in> set (snd (snd (LoginHandler C io db bound)))"
    and "C h p = CompareError e"
  shows "fst (LoginHandler C io db bound) = Response 500 NoContent"
  using assms
  by (auto simp: LoginHandler_def Let_def
      split: option.splits if_splits sum.splits db_error.splits compare_result.splits)

lemma LoginHandler_session_error:
  assumes "SessionGet \<in> set (snd (snd (LoginHandler C io db bound)))"
    and "session_Get io = Inl e"
  shows "fst (LoginHandler C io db bound)
           = Response 500 (Text ''something wrong in getting session'')"
  using assms
  by (auto simp: LoginHandler_def Let_def
      split: option.splits if_splits sum.splits db_error.splits compare_result.splits)

text \<open>
  C6, as the code has it. Not every session failure gets a 500 with nothing in the body: a
  failing \<open>sess.Save\<close> in the login handler is dropped and the answer is 200, and a
  failing \<open>session.Get\<close> gets a 500 whose body is the text "something wrong in getting
  session", which names the step that failed.
\<close>

theorem failure_responses_counterexample:
  "fst (LoginHandler sample_compare (fresh_session\<lparr>session_Save := Some ''write failed''\<rparr>)
          sample_store (Some alice_login)) = Response 200 NoContent
   \<and> UserAuthMiddleware GetMeHandler
       \<lparr>session_of = Inl ''securecookie: the value is not valid'', store_of = Map.empty\<rparr>
     = Response 500 (Text ''something wrong in getting session'')"
  by (simp add: LoginHandler_def select_user_def run_def first_row_def sample_store_def
      no_fault_def alice_login_def sample_compare_def fresh_session_def UserAuthMiddleware_def)

text \<open>
  C6, amended. In every handler, a statement that the handler sent and that gave an error
  other than no-rows (the statement failed, or its row did not scan), a failing password
  hash and a failing hash comparison other than a mismatch get 500 with no body; a failing
  session fetch, in the login handler and in the middleware, gets 500 with the fixed text
  "something wrong in getting session". In each case the response is the same whatever the
  error is.
\<close>

theorem failures_give_500:
  "(Query s \<in> set (snd (GetCityInfoHandler db cityName))
        \<and> stmt_error db s = Some (ErrOther e)
      \<longrightarrow> fst (GetCityInfoHandler db cityName) = Response 500 NoContent)
   \<and> (Query s \<in> set (snd (snd (PostCityHandler db city)))
        \<and> stmt_error db s = Some (ErrOther e)
      \<longrightarrow> fst (PostCityHandler db city) = Response 500 NoContent)
   \<and> (Query s \<in> set (snd (snd (SignUpHandler GenerateFromPassword db req)))
        \<and> stmt_error db s = Some (ErrOther e)
      \<longrightarrow> fst (SignUpHandler GenerateFromPassword db req) = Response 500 NoContent)
   \<and> (Hash p \<in> set (snd (snd (SignUpHandler GenerateFromPassword db req)))
        \<and> GenerateFromPassword p = Inl e
      \<longrightarrow> fst (SignUpHandler GenerateFromPassword db req) = Response 500 NoContent)
   \<and> (Query s \<in> set (snd (snd (LoginHandler CompareHashAndPassword io db req)))
        \<and> stmt_error db s = Some (ErrOther e)
      \<longrightarrow> fst (LoginHandler CompareHashAndPassword io db req) = Response 500 NoContent)
   \<and> (Compare h p \<in> set (snd (snd (LoginHandler CompareHashAndPassword io db req)))
        \<and> CompareHashAndPassword h p = CompareError e
      \<longrightarrow> fst (LoginHandler CompareHashAndPassword io db req) = Response 500 NoContent)
   \<and> (SessionGet \<in> set (snd (snd (LoginHandler CompareHashAndPassword io db req)))
        \<and> session_Get io = Inl e
      \<longrightarrow> fst (LoginHandler CompareHashAndPassword io db req)
          = Response 500 (Text ''something wrong in getting session''))
   \<and> (session_of c = Inl e
      \<longrightarrow> UserAuthMiddleware next_handler c
          = Response 500 (Text ''something wrong in getting session''))
   \<and> (Query s \<in> set (snd (GetWorldHandler db countryName cityName))
        \<and> stmt_error db s = Some (ErrOther e)
      \<longrightarrow> fst (GetWorldHandler db countryName cityName) = Response 500 NoContent)
   \<and> (fault db s = Some e \<longrightarrow> stmt_error db s = Some (ErrOther e))"
proof (intro conjI impI; (elim conjE)?)
  show "fst (GetCityInfoHandler db cityName) = Response 500 NoContent"
    if "Query s \<in> set (snd (GetCityInfoHandler db cityName))"
      "stmt_error db s = Some (ErrOther e)"
    using that by (rule GetCityInfoHandler_failure)
  show "fst (PostCityHandler db city) = Response 500 NoContent"
    if "Query s \<in> set (snd (snd (PostCityHandler db city)))"
      "stmt_error db s = Some (ErrOther e)"
    using that by (rule PostCityHandler_failure)
  show "fst (SignUpHandler GenerateFromPassword db req) = Response 500 NoContent"
    if "Query s \<in> set (snd (snd (SignUpHandler GenerateFromPassword db req)))"
      "stmt_error db s = Some (ErrOther e)"
    using that by (rule SignUpHandler_failure)
  show "fst (SignUpHandler GenerateFromPassword db req) = Response 500 NoContent"
    if "Hash p \<in> set (snd (snd (SignUpHandler GenerateFromPassword db req)))"
      "GenerateFromPassword p = Inl e"
    using that by (rule SignUpHandler_hash_error)
  show "fst (LoginHandler CompareHashAndPassword io db req) = Response 500 NoContent"
    if "Query s \<in> set (snd (snd (LoginHandler CompareHashAndPassword io db req)))"
      "stmt_error db s = Some (ErrOther e)"
    using that by (rule LoginHandler_failure)
  show "fst (LoginHandler CompareHashAndPassword io db req) = Response 500 NoContent"
    if "Compare h p \<in> set (snd (snd (LoginHandler CompareHashAndPassword io db req)))"
      "CompareHashAndPassword h p = CompareError e"
    using that by (rule LoginHandler_compare_error)
  show "fst (LoginHandler CompareHashAndPassword io db req)
          = Response 500 (Text ''something wrong in getting session'')"
    if "SessionGet \<in> set (snd (snd (LoginHandler CompareHashAndPassword io db req)))"
      "session_Get io = Inl e"
    using that by (rule LoginHandler_session_error)
  show "UserAuthMiddleware next_handler c
          = Response 500 (Text ''something wrong in getting session'')"
    if "session_of c = Inl e"
    using that by (simp add: UserAuthMiddleware_def)
  show "fst (GetWorldHandler db countryName cityName) = Response 500 NoContent"
    if "Query s \<in> set (snd (GetWorldHandler db countryName cityName))"
      "stmt_error db s = Some (ErrOther e)"
    using that by (rule GetWorldHandler_failure)
  show "stmt_error db s = Some (ErrOther e)" if "fault db s = Some e"
    using that
    by (cases s)
      (simp_all add: error_of_def run_def select_city_by_name_def insert_city_def
        last_insert_id_def count_users_def insert_user_def select_user_def count_countries_def
        select_country_name_at_def select_country_code_def count_cities_def
        select_city_name_at_def select_city_by_code_and_name_def)
qed

theorem failures_give_500_witness:
  "fst (GetCityInfoHandler (sample_store\<lparr>fault := all_fail\<rparr>) ''Tokyo'')
     = Response 500 NoContent
   \<and> fst (PostCityHandler (sample_store\<lparr>fault := last_insert_id_fails\<rparr>) (Some kyoto))
     = Response 500 NoContent
   \<and> fst (SignUpHandler sample_hash (sample_store\<lparr>fault := insert_user_fails\<rparr>)
          (Some bob_login)) = Response 500 NoContent
   \<and> fst (SignUpHandler hash_fails sample_store (Some bob_login)) = Response 500 NoContent
   \<and> fst (LoginHandler sample_compare fresh_session (sample_store\<lparr>fault := all_fail\<rparr>)
          (Some alice_login)) = Response 500 NoContent
   \<and> fst (LoginHandler sample_compare fresh_session malformed_hash_store (Some alice_login))
     = Response 500 NoContent
   \<and> fst (LoginHandler sample_compare broken_session sample_store (Some alice_login))
     = Response 500 (Text ''something wrong in getting session'')
   \<and> UserAuthMiddleware GetMeHandler
       \<lparr>session_of = Inl ''securecookie: the value is not valid'', store_of = Map.empty\<rparr>
     = Response 500 (Text ''something wrong in getting session'')
   \<and> fst (GetWorldHandler (sample_store\<lparr>fault := second_offset_fails\<rparr>)
          ''allCountries'' ''x'') = Response 500 NoContent
   \<and> fault null_name_store (SelectCityNameAt ''JPN'' 0) = None
   \<and> GetWorldHandler null_name_store ''Japan'' ''allCities''
     = (Response 500 NoContent,
        [Query (SelectCountryCode ''Japan''), Query (CountCities ''JPN''),
         Query (SelectCityNameAt ''JPN'' 0)])
   \<and> stmt_error (sample_store\<lparr>fault := all_fail\<rparr>) CountCountries
     = Some (ErrOther ''connection refused'')"
proof -
  note store = sample_store_def no_fault_def run_def first_row_def error_of_def
  have 1: "fst (GetCityInfoHandler (sample_store\<lparr>fault := all_fail\<rparr>) ''Tokyo'')
     = Response 500 NoContent"
    using failures_give_500
      [where s = "SelectCityByName ''Tokyo''" and db = "sample_store\<lparr>fault := all_fail\<rparr>"
         and cityName = "''Tokyo''" and e = "''connection refused''", THEN conjunct1]
    by (simp add: GetCityInfoHandler_def select_city_by_name_def all_fail_def store)
  have 2: "fst (PostCityHandler (sample_store\<lparr>fault := last_insert_id_fails\<rparr>) (Some kyoto))
     = Response 500 NoContent"
    using failures_give_500
      [where s = LastInsertId and db = "sample_store\<lparr>fault := last_insert_id_fails\<rparr>"
         and city = "Some kyoto" and e = "''not supported''",
       THEN conjunct2, THEN conjunct1]
    by (simp add: PostCityHandler_def insert_city_def last_insert_id_def
        last_insert_id_fails_def kyoto_def store)
  have 3: "fst (SignUpHandler sample_hash (sample_store\<lparr>fault := insert_user_fails\<rparr>)
          (Some bob_login)) = Response 500 NoContent"
    using failures_give_500
      [where s = "InsertUser ''bob'' ''#secret''"
         and db = "sample_store\<lparr>fault := insert_user_fails\<rparr>"
         and GenerateFromPassword = sample_hash and req = "Some bob_login"
         and e = "''connection refused''",
       THEN conjunct2, THEN conjunct2, THEN conjunct1]
    by (simp add: SignUpHandler_def count_users_def insert_user_def insert_user_fails_def
        sample_hash_def bob_login_def store)
  have 4: "fst (SignUpHandler hash_fails sample_store (Some bob_login)) = Response 500 NoContent"
    using failures_give_500
      [where p = "''secret''" and db = sample_store and GenerateFromPassword = hash_fails
         and req = "Some bob_login" and e = "''password length exceeds 72 bytes''",
       THEN conjunct2, THEN conjunct2, THEN conjunct2, THEN conjunct1]
    by (simp add: SignUpHandler_def count_users_def hash_fails_def bob_login_def store)
  have 5: "fst (LoginHandler sample_compare fresh_session (sample_store\<lparr>fault := all_fail\<rparr>)
          (Some alice_login)) = Response 500 NoContent"
    using failures_give_500
      [where s = "SelectUser ''alice''" and db = "sample_store\<lparr>fault := all_fail\<rparr>"
         and CompareHashAndPassword = sample_compare and io = fresh_session
         and req = "Some alice_login" and e = "''connection refused''",
       THEN conjunct2, THEN conjunct2, THEN conjunct2, THEN conjunct2, THEN conjunct1]
    by (simp add: LoginHandler_def select_user_def all_fail_def alice_login_def store)
  have 6: "fst (LoginHandler sample_compare fresh_session malformed_hash_store
          (Some alice_login)) = Response 500 NoContent"
    using failures_give_500
      [where h = "''secret''" and p = "''secret''" and db = malformed_hash_store
         and CompareHashAndPassword = sample_compare and io = fresh_session
         and req = "Some alice_login" and e = "''hash too short''",
       THEN conjunct2, THEN conjunct2, THEN conjunct2, THEN conjunct2, THEN conjunct2,
       THEN conjunct1]
    by (simp add: LoginHandler_def select_user_def malformed_hash_store_def alice_login_def
        sample_compare_def store)
  have 7: "fst (LoginHandler sample_compare broken_session sample_store (Some alice_login))
     = Response 500 (Text ''something wrong in getting session'')"
    using failures_give_500
      [where db = sample_store and CompareHashAndPassword = sample_compare
         and io = broken_session and req = "Some alice_login"
         and e = "''securecookie: the value is not valid''",
       THEN conjunct2, THEN conjunct2, THEN conjunct2, THEN conjunct2, THEN conjunct2,
       THEN conjunct2, THEN conjunct1]
    by (simp add: LoginHandler_def select_user_def broken_session_def alice_login_def
        sample_compare_def store)
  have 8: "UserAuthMiddleware GetMeHandler
       \<lparr>session_of = Inl ''securecookie: the value is not valid'', store_of = Map.empty\<rparr>
     = Response 500 (Text ''something wrong in getting session'')"
    using failures_give_500
      [where c = "\<lparr>session_of = Inl ''securecookie: the value is not valid'',
                    store_of = Map.empty\<rparr>"
         and e = "''securecookie: the value is not valid''" and next_handler = GetMeHandler,
       THEN conjunct2, THEN conjunct2, THEN conjunct2, THEN conjunct2, THEN conjunct2,
       THEN conjunct2, THEN conjunct2, THEN conjunct1]
    by simp
  note world = GetWorldHandler_def count_countries_def select_country_name_at_def
    country_names_def limit1_offset_def select_country_code_def count_cities_def
    select_city_name_at_def city_names_def nulls_first_def cities_of_def scan_string_def
    countries_loop.simps cities_loop.simps not_found_or_500_def List.map_filter_simps
  have 9: "fst (GetWorldHandler (sample_store\<lparr>fault := second_offset_fails\<rparr>)
          ''allCountries'' ''x'') = Response 500 NoContent"
    using failures_give_500
      [where s = "SelectCountryNameAt 1"
         and db = "sample_store\<lparr>fault := second_offset_fails\<rparr>"
         and countryName = "''allCountries''" and cityName = "''x''"
         and e = "''connection reset''",
       THEN conjunct2, THEN conjunct2, THEN conjunct2, THEN conjunct2, THEN conjunct2,
       THEN conjunct2, THEN conjunct2, THEN conjunct2, THEN conjunct1]
    by (simp add: world second_offset_fails_def store)
  have tr: "snd (GetWorldHandler null_name_store ''Japan'' ''allCities'')
     = [Query (SelectCountryCode ''Japan''), Query (CountCities ''JPN''),
        Query (SelectCityNameAt ''JPN'' 0)]"
    by (simp add: world null_name_store_def store)
  have 10: "fst (GetWorldHandler null_name_store ''Japan'' ''allCities'')
     = Response 500 NoContent"
    using tr failures_give_500
      [where s = "SelectCityNameAt ''JPN'' 0" and db = null_name_store
         and countryName = "''Japan''" and cityName = "''allCities''"
         and e = "''converting NULL to string is unsupported''",
       THEN conjunct2, THEN conjunct2, THEN conjunct2, THEN conjunct2, THEN conjunct2,
       THEN conjunct2, THEN conjunct2, THEN conjunct2, THEN conjunct1]
    by (simp add: world null_name_store_def store)
  have 11: "stmt_error (sample_store\<lparr>fault := all_fail\<rparr>) CountCountries
     = Some (ErrOther ''connection refused'')"
    using failures_give_500
      [where s = CountCountries and db = "sample_store\<lparr>fault := all_fail\<rparr>"
         and e = "''connection refused''",
       THEN conjunct2, THEN conjunct2, THEN conjunct2, THEN conjunct2, THEN conjunct2,
       THEN conjunct2, THEN conjunct2, THEN conjunct2, THEN conjunct2]
    by (simp add: all_fail_def)
  have nf: "fault null_name_store (SelectCityNameAt ''JPN'' 0) = None"
    by (simp add: null_name_store_def sample_store_def no_fault_def)
  from 1 2 3 4 5 6 7 8 9 10 11 nf tr show ?thesis by (simp add: prod_eq_iff)
qed

end
